theory Spec2Isabelle
  imports Complex_Main
begin

section \<open>Typed arrays over shared buffers\<close>

text \<open>
  The matrices of TS3D keep their elements in a \<^verbatim>\<open>Float32Array\<close>, and two matrices may be
  built on the same array. The store is therefore explicit: a heap is the sequence of the
  \<^verbatim>\<open>ArrayBuffer\<close>s allocated so far, each one the sequence of its 32-bit cells, and a
  \<^verbatim>\<open>Float32Array\<close> is a window (buffer, byte offset, byte length) on one of them.
  The 32-bit floats are idealised as real numbers: no rounding, no NaN and no infinity.

  The repository holds two revisions of the matrix module. The functions below follow the
  later one, whose output parameters are optional and whose functions return the output; with
  an output passed, the earlier revision runs the same statements.
\<close>

type_synonym heap = "real list list"

record f32array =
  buffer :: nat
  byteOffset :: nat
  byteLength :: nat

definition arr_length :: "f32array \<Rightarrow> nat" where
  "arr_length v = byteLength v div 4"

definition cell :: "f32array \<Rightarrow> nat \<Rightarrow> nat" where
  "cell v i = byteOffset v div 4 + i"

text \<open>\<^verbatim>\<open>new Float32Array(n)\<close>: a fresh buffer of \<open>n\<close> zeros.\<close>

definition new_Float32Array :: "nat \<Rightarrow> heap \<Rightarrow> f32array \<times> heap" where
  "new_Float32Array n h =
     (\<lparr>buffer = length h, byteOffset = 0, byteLength = 4 * n\<rparr>, h @ [replicate n 0])"

text \<open>
  \<^verbatim>\<open>v[i]\<close> as an expression. Outside the window JavaScript yields \<^verbatim>\<open>undefined\<close>, which
  no real number stands for: the model leaves that value unspecified.
\<close>

definition rd :: "heap \<Rightarrow> f32array \<Rightarrow> nat \<Rightarrow> real" where
  "rd h v i = (if i < arr_length v then h ! buffer v ! cell v i else undefined)"

text \<open>\<^verbatim>\<open>v[i] = x\<close>: a store outside the window is discarded.\<close>

definition wr :: "heap \<Rightarrow> f32array \<Rightarrow> nat \<Rightarrow> real \<Rightarrow> heap" where
  "wr h v i x =
     (if i < arr_length v then h[buffer v := (h ! buffer v)[cell v i := x]] else h)"

text \<open>The same store with an index that may be negative: a negative index is outside the window.\<close>

definition wr_int :: "heap \<Rightarrow> f32array \<Rightarrow> int \<Rightarrow> real \<Rightarrow> heap" where
  "wr_int h v i x = (if 0 \<le> i then wr h v (nat i) x else h)"

definition contents :: "heap \<Rightarrow> f32array \<Rightarrow> real list" where
  "contents h v = map (rd h v) [0..<arr_length v]"

text \<open>A window lies within its buffer, on the 4-byte grid.\<close>

definition view_ok :: "heap \<Rightarrow> f32array \<Rightarrow> bool" where
  "view_ok h v \<longleftrightarrow>
     buffer v < length h \<and> byteOffset v mod 4 = 0 \<and> byteLength v mod 4 = 0 \<and>
     cell v (arr_length v) \<le> length (h ! buffer v)"

definition same_view :: "f32array \<Rightarrow> f32array \<Rightarrow> bool" where
  "same_view A B =
     (if buffer A = buffer B \<and> byteOffset A = byteOffset B \<and> byteLength A = byteLength B
      then True else False)"

text \<open>The second argument of \<^verbatim>\<open>set_column\<close> and \<^verbatim>\<open>set_all\<close>: \<^verbatim>\<open>number[] | Float32Array\<close>.\<close>

datatype vals = Numbers "real list" | Floats f32array

fun vals_length :: "vals \<Rightarrow> nat" where
  "vals_length (Numbers xs) = length xs"
| "vals_length (Floats v) = arr_length v"

fun vals_rd :: "heap \<Rightarrow> vals \<Rightarrow> nat \<Rightarrow> real" where
  "vals_rd h (Numbers xs) i = (if i < length xs then xs ! i else undefined)"
| "vals_rd h (Floats v) i = rd h v i"

section \<open>The class Matrix\<close>

text \<open>One constructor of \<open>error\<close> for each message the source throws.\<close>

datatype error =
    DimsNotPositiveInteger    \<comment> \<open>Matrix dims must be integer > 0.\<close>
  | ViewLengthMismatch        \<comment> \<open>Provided view length does not fit matrix dims.\<close>
  | ColsNotPositiveInteger    \<comment> \<open>Matrix4xN must have positive integer number of cols.\<close>
  | OutsideDims               \<comment> \<open>Requested element outside matrix dims.\<close>
  | ColumnOutsideOrMismatch   \<comment> \<open>Requested column outside matrix dims or column vec dims do not match.\<close>
  | ValsLengthMismatch        \<comment> \<open>Provided vals length does not match matrix size.\<close>
  | CannotModifyArgInPlace    \<comment> \<open>Cannot modify Matrix arg in place.\<close>
  | DimsIncorrect             \<comment> \<open>matrix dims incorrect - cannot multiply\<close>
  | CannotModifyAInPlace      \<comment> \<open>Cannot modify Matrix A in place, only B can be modified in place\<close>
  | ColumnCountMismatch       \<comment> \<open>Matrices B and C must have same column count\<close>
  | DstDimsMismatch           \<comment> \<open>Provided dst dims do not match src dims\<close>

text \<open>A call returns a value or throws, and leaves a heap behind in both cases.\<close>

type_synonym 'a prog = "heap \<Rightarrow> (error + 'a) \<times> heap"

definition bind_p :: "'a prog \<Rightarrow> ('a \<Rightarrow> 'b prog) \<Rightarrow> 'b prog" where
  "bind_p m f h = (case m h of (Inl e, h') \<Rightarrow> (Inl e, h') | (Inr x, h') \<Rightarrow> f x h')"

definition return_p :: "'a \<Rightarrow> 'a prog" where
  "return_p x h = (Inr x, h)"

definition throw_p :: "error \<Rightarrow> 'a prog" where
  "throw_p e h = (Inl e, h)"

definition read_p :: "(heap \<Rightarrow> 'a) \<Rightarrow> 'a prog" where
  "read_p f h = (Inr (f h), h)"

definition modify_p :: "(heap \<Rightarrow> heap) \<Rightarrow> unit prog" where
  "modify_p f h = (Inr (), f h)"

text \<open>An optional argument: the object passed, or the one the callee constructs.\<close>

definition or_new :: "'a option \<Rightarrow> 'a prog \<Rightarrow> 'a prog" where
  "or_new opt mk = (case opt of None \<Rightarrow> mk | Some x \<Rightarrow> return_p x)"

text \<open>
  A division whose divisor is zero gives an infinity or NaN in the source; the reals have
  neither, and the model leaves the quotient unspecified there. \<^verbatim>\<open>Math.acos\<close> outside
  \<open>[-1, 1]\<close> is NaN, unspecified in the same way.
\<close>

definition fdiv :: "real \<Rightarrow> real \<Rightarrow> real" where
  "fdiv x y = (if y = 0 then undefined else x / y)"

definition Math_acos :: "real \<Rightarrow> real" where
  "Math_acos x = (if - 1 \<le> x \<and> x \<le> 1 then arccos x else undefined)"

definition Math_hypot :: "real \<Rightarrow> real \<Rightarrow> real \<Rightarrow> real" where
  "Math_hypot x y z = sqrt (x * x + y * y + z * z)"

record matrix =
  row_count :: nat
  col_count :: nat
  arr :: f32array

text \<open>
  The constructor takes its dimensions as numbers and checks that they are positive
  integers; \<^verbatim>\<open>x % 1.0\<close> is the fractional part.
\<close>

definition new_Matrix :: "real \<Rightarrow> real \<Rightarrow> f32array option \<Rightarrow> matrix prog" where
  "new_Matrix nrows ncols view h =
     (if nrows < 1 \<or> frac nrows \<noteq> 0 \<or> ncols < 1 \<or> frac ncols \<noteq> 0
      then (Inl DimsNotPositiveInteger, h)
      else
        let r = nat \<lfloor>nrows\<rfloor>; c = nat \<lfloor>ncols\<rfloor> in
        (case view of
           Some v \<Rightarrow>
             if arr_length v = r * c
             then (Inr \<lparr>row_count = r, col_count = c, arr = v\<rparr>, h)
             else (Inl ViewLengthMismatch, h)
         | None \<Rightarrow>
             let (v, h') = new_Float32Array (r * c) h
             in (Inr \<lparr>row_count = r, col_count = c, arr = v\<rparr>, h')))"

definition rows :: "matrix \<Rightarrow> nat" where
  "rows M = row_count M"

definition cols :: "matrix \<Rightarrow> nat" where
  "cols M = col_count M"

definition get_m :: "matrix \<Rightarrow> int \<Rightarrow> int \<Rightarrow> heap \<Rightarrow> error + real" where
  "get_m M row col h =
     (if row < 0 \<or> row \<ge> int (row_count M) \<or> col < 0 \<or> col \<ge> int (col_count M)
      then Inl OutsideDims
      else Inr (rd h (arr M) (nat (row + col * int (row_count M)))))"

definition set_m :: "matrix \<Rightarrow> int \<Rightarrow> int \<Rightarrow> real \<Rightarrow> unit prog" where
  "set_m M row col val h =
     (if row < 0 \<or> row \<ge> int (row_count M) \<or> col < 0 \<or> col \<ge> int (col_count M)
      then (Inl OutsideDims, h)
      else (Inr (), wr_int h (arr M) (row + col * int (row_count M)) val))"

text \<open>
  \<^verbatim>\<open>set_column\<close> checks the length of the values and that the column is not too large,
  then stores element \<open>i\<close> of the values at index \<open>i + column * row_count\<close>.
\<close>

definition set_column :: "matrix \<Rightarrow> int \<Rightarrow> vals \<Rightarrow> unit prog" where
  "set_column M column values h =
     (if row_count M \<noteq> vals_length values \<or> column \<ge> int (col_count M)
      then (Inl ColumnOutsideOrMismatch, h)
      else (Inr (),
            fold (\<lambda>i h'. wr_int h' (arr M) (int i + column * int (row_count M)) (vals_rd h' values i))
                 [0..<row_count M] h))"

definition set_all :: "matrix \<Rightarrow> vals \<Rightarrow> unit prog" where
  "set_all M vs h =
     (if vals_length vs \<noteq> row_count M * col_count M
      then (Inl ValsLengthMismatch, h)
      else (Inr (), fold (\<lambda>i h'. wr h' (arr M) i (vals_rd h' vs i)) [0..<vals_length vs] h))"

subsection \<open>The subclasses with four rows\<close>

definition new_Matrix4xN :: "real \<Rightarrow> f32array option \<Rightarrow> matrix prog" where
  "new_Matrix4xN ncols view h =
     (if ncols \<le> 0 \<or> frac ncols \<noteq> 0 then (Inl ColsNotPositiveInteger, h)
      else new_Matrix 4 ncols view h)"

definition new_Matrix4x4 :: "f32array option \<Rightarrow> matrix prog" where
  "new_Matrix4x4 view = new_Matrix4xN 4 view"

definition new_Matrix4x1 :: "f32array option \<Rightarrow> matrix prog" where
  "new_Matrix4x1 view = new_Matrix4xN 1 view"

text \<open>
  The static types \<^verbatim>\<open>Matrix4xN\<close>, \<^verbatim>\<open>Matrix4x4\<close> and \<^verbatim>\<open>Matrix4x1\<close> of a parameter say
  which constructor built the object; on the record they are these predicates.
\<close>

definition is_Matrix :: "heap \<Rightarrow> matrix \<Rightarrow> bool" where
  "is_Matrix h M \<longleftrightarrow>
     0 < row_count M \<and> 0 < col_count M \<and> view_ok h (arr M) \<and>
     arr_length (arr M) = row_count M * col_count M"

definition is_Matrix4xN :: "heap \<Rightarrow> matrix \<Rightarrow> bool" where
  "is_Matrix4xN h M \<longleftrightarrow> is_Matrix h M \<and> row_count M = 4"

definition is_Matrix4x4 :: "heap \<Rightarrow> matrix \<Rightarrow> bool" where
  "is_Matrix4x4 h M \<longleftrightarrow> is_Matrix4xN h M \<and> col_count M = 4"

definition is_Matrix4x1 :: "heap \<Rightarrow> matrix \<Rightarrow> bool" where
  "is_Matrix4x1 h M \<longleftrightarrow> is_Matrix4xN h M \<and> col_count M = 1"

section \<open>The generic product\<close>

fun multiply_k :: "matrix \<Rightarrow> matrix \<Rightarrow> int \<Rightarrow> int \<Rightarrow> heap \<Rightarrow> real \<Rightarrow> nat list \<Rightarrow> error + real" where
  "multiply_k A B row col h swp [] = Inr swp"
| "multiply_k A B row col h swp (k # ks) =
     (case get_m A row (int k) h of
        Inl e \<Rightarrow> Inl e
      | Inr a \<Rightarrow>
          (case get_m B (int k) col h of
             Inl e \<Rightarrow> Inl e
           | Inr b \<Rightarrow> multiply_k A B row col h (swp + a * b) ks))"

fun multiply_col :: "matrix \<Rightarrow> matrix \<Rightarrow> matrix \<Rightarrow> int \<Rightarrow> nat list \<Rightarrow> unit prog" where
  "multiply_col A B C row [] h = (Inr (), h)"
| "multiply_col A B C row (col # cs) h =
     (case multiply_k A B row (int col) h 0 [0..<cols A] of
        Inl e \<Rightarrow> (Inl e, h)
      | Inr swp \<Rightarrow>
          (case set_m C row (int col) swp h of
             (Inl e, h') \<Rightarrow> (Inl e, h')
           | (Inr u, h') \<Rightarrow> multiply_col A B C row cs h'))"

fun multiply_row :: "matrix \<Rightarrow> matrix \<Rightarrow> matrix \<Rightarrow> nat list \<Rightarrow> unit prog" where
  "multiply_row A B C [] h = (Inr (), h)"
| "multiply_row A B C (row # rs) h =
     (case multiply_col A B C (int row) [0..<cols B] h of
        (Inl e, h') \<Rightarrow> (Inl e, h')
      | (Inr u, h') \<Rightarrow> multiply_row A B C rs h')"

definition multiply :: "matrix \<Rightarrow> matrix \<Rightarrow> matrix option \<Rightarrow> matrix prog" where
  "multiply A B Copt =
     bind_p (or_new Copt (new_Matrix (real (rows A)) (real (cols B)) None))
       (\<lambda>C h.
          if same_view (arr A) (arr C) \<or> same_view (arr B) (arr C)
          then (Inl CannotModifyArgInPlace, h)
          else if cols A \<noteq> rows B \<or> rows A \<noteq> rows C \<or> cols B \<noteq> cols C
          then (Inl DimsIncorrect, h)
          else (case multiply_row A B C [0..<rows A] h of
                  (Inl e, h') \<Rightarrow> (Inl e, h')
                | (Inr u, h') \<Rightarrow> (Inr C, h')))"

section \<open>Vectors, copies and the identity\<close>

definition dot3 :: "matrix \<Rightarrow> matrix \<Rightarrow> heap \<Rightarrow> real" where
  "dot3 A B h =
     rd h (arr A) 0 * rd h (arr B) 0 + rd h (arr A) 1 * rd h (arr B) 1 +
     rd h (arr A) 2 * rd h (arr B) 2"

definition norm3 :: "matrix \<Rightarrow> heap \<Rightarrow> real" where
  "norm3 A h = Math_hypot (rd h (arr A) 0) (rd h (arr A) 1) (rd h (arr A) 2)"

text \<open>The loop of the three copy functions: element by element, in index order.\<close>

definition copy_elements :: "matrix \<Rightarrow> matrix \<Rightarrow> heap \<Rightarrow> heap" where
  "copy_elements src dst h =
     fold (\<lambda>index h'. wr h' (arr dst) index (rd h' (arr src) index)) [0..<arr_length (arr src)] h"

definition copy4xN :: "matrix \<Rightarrow> matrix option \<Rightarrow> matrix prog" where
  "copy4xN src dstopt =
     bind_p (case dstopt of
               None \<Rightarrow> new_Matrix4xN (real (cols src)) None
             | Some dst \<Rightarrow> if cols dst \<noteq> cols src then throw_p DstDimsMismatch else return_p dst)
       (\<lambda>dst. bind_p (modify_p (copy_elements src dst)) (\<lambda>_. return_p dst))"

definition copy4x4 :: "matrix \<Rightarrow> matrix option \<Rightarrow> matrix prog" where
  "copy4x4 src dstopt =
     bind_p (or_new dstopt (new_Matrix4x4 None))
       (\<lambda>dst. bind_p (modify_p (copy_elements src dst)) (\<lambda>_. return_p dst))"

definition copy4x1 :: "matrix \<Rightarrow> matrix option \<Rightarrow> matrix prog" where
  "copy4x1 src dstopt =
     bind_p (or_new dstopt (new_Matrix4x1 None))
       (\<lambda>dst. bind_p (modify_p (copy_elements src dst)) (\<lambda>_. return_p dst))"

definition getI4x4 :: "f32array option \<Rightarrow> matrix prog" where
  "getI4x4 view =
     bind_p (new_Matrix4x4 view)
       (\<lambda>out. bind_p (set_all out (Numbers [1, 0, 0, 0,  0, 1, 0, 0,  0, 0, 1, 0,  0, 0, 0, 1]))
          (\<lambda>_. return_p out))"

section \<open>Rotation builders\<close>

text \<open>Stores at the indices \<open>i\<close>, \<open>i + 1\<close>, ... one after the other.\<close>

fun wr_from :: "heap \<Rightarrow> f32array \<Rightarrow> nat \<Rightarrow> real list \<Rightarrow> heap" where
  "wr_from h v i [] = h"
| "wr_from h v i (x # xs) = wr_from (wr h v i x) v (Suc i) xs"

text \<open>The sixteen values each builder stores at \<open>out.arr[0]\<close> to \<open>out.arr[15]\<close>.\<close>

definition rot_x_elements :: "real \<Rightarrow> real list" where
  "rot_x_elements rad =
     (let c = cos rad; s = sin rad
      in [1, 0, 0, 0,  0, c, s, 0,  0, - s, c, 0,  0, 0, 0, 1])"

definition rot_y_elements :: "real \<Rightarrow> real list" where
  "rot_y_elements rad =
     (let c = cos rad; s = sin rad
      in [c, 0, - s, 0,  0, 1, 0, 0,  s, 0, c, 0,  0, 0, 0, 1])"

definition rot_z_elements :: "real \<Rightarrow> real list" where
  "rot_z_elements rad =
     (let c = cos rad; s = sin rad
      in [c, s, 0, 0,  - s, c, 0, 0,  0, 0, 1, 0,  0, 0, 0, 1])"

definition get_rot_x :: "real \<Rightarrow> matrix option \<Rightarrow> matrix prog" where
  "get_rot_x rad outopt =
     bind_p (or_new outopt (new_Matrix4x4 None))
       (\<lambda>out. bind_p (modify_p (\<lambda>h. wr_from h (arr out) 0 (rot_x_elements rad)))
          (\<lambda>_. return_p out))"

definition get_rot_y :: "real \<Rightarrow> matrix option \<Rightarrow> matrix prog" where
  "get_rot_y rad outopt =
     bind_p (or_new outopt (new_Matrix4x4 None))
       (\<lambda>out. bind_p (modify_p (\<lambda>h. wr_from h (arr out) 0 (rot_y_elements rad)))
          (\<lambda>_. return_p out))"

definition get_rot_z :: "real \<Rightarrow> matrix option \<Rightarrow> matrix prog" where
  "get_rot_z rad outopt =
     bind_p (or_new outopt (new_Matrix4x4 None))
       (\<lambda>out. bind_p (modify_p (\<lambda>h. wr_from h (arr out) 0 (rot_z_elements rad)))
          (\<lambda>_. return_p out))"

section \<open>The kernels with four rows\<close>

text \<open>
  One column of a product: the four sums go to the scratch \<open>swp\<close> (a local array of four
  cells that no matrix is built on, here four bound values), then to \<open>C.arr[offset]\<close> and
  the three cells after it.
\<close>

definition mul_column :: "matrix \<Rightarrow> matrix \<Rightarrow> matrix \<Rightarrow> nat \<Rightarrow> heap \<Rightarrow> heap" where
  "mul_column A B C offset h =
     (let a = rd h (arr A); b = rd h (arr B);
          swp0 = a 0 * b (offset + 0) + a 4 * b (offset + 1) + a 8 * b (offset + 2) + a 12 * b (offset + 3);
          swp1 = a 1 * b (offset + 0) + a 5 * b (offset + 1) + a 9 * b (offset + 2) + a 13 * b (offset + 3);
          swp2 = a 2 * b (offset + 0) + a 6 * b (offset + 1) + a 10 * b (offset + 2) + a 14 * b (offset + 3);
          swp3 = a 3 * b (offset + 0) + a 7 * b (offset + 1) + a 11 * b (offset + 2) + a 15 * b (offset + 3);
          h1 = wr h (arr C) offset swp0;
          h2 = wr h1 (arr C) (offset + 1) swp1;
          h3 = wr h2 (arr C) (offset + 2) swp2
      in wr h3 (arr C) (offset + 3) swp3)"

function multiply4x4_4xN_loop :: "matrix \<Rightarrow> matrix \<Rightarrow> matrix \<Rightarrow> nat \<Rightarrow> heap \<Rightarrow> heap" where
  "multiply4x4_4xN_loop A B C offset h =
     (if offset < arr_length (arr B)
      then multiply4x4_4xN_loop A B C (offset + 4) (mul_column A B C offset h)
      else h)"
  by pat_completeness auto
termination
  by (relation "measure (\<lambda>(A, B, C, offset, h). arr_length (arr B) - offset)") auto

definition multiply4x4_4xN :: "matrix \<Rightarrow> matrix \<Rightarrow> matrix option \<Rightarrow> matrix prog" where
  "multiply4x4_4xN A B Copt =
     bind_p (or_new Copt (new_Matrix4xN (real (cols B)) None))
       (\<lambda>C h.
          if same_view (arr A) (arr C) then (Inl CannotModifyAInPlace, h)
          else if cols B \<noteq> cols C then (Inl ColumnCountMismatch, h)
          else (Inr C, multiply4x4_4xN_loop A B C 0 h))"

definition multiply4x4_4x4 :: "matrix \<Rightarrow> matrix \<Rightarrow> matrix option \<Rightarrow> matrix prog" where
  "multiply4x4_4x4 A B Copt =
     bind_p (or_new Copt (new_Matrix4x4 None))
       (\<lambda>C h.
          if same_view (arr A) (arr C) then (Inl CannotModifyAInPlace, h)
          else (Inr C, mul_column A B C 12 (mul_column A B C 8 (mul_column A B C 4 (mul_column A B C 0 h)))))"

definition multiply4x4_4x1 :: "matrix \<Rightarrow> matrix \<Rightarrow> matrix option \<Rightarrow> matrix prog" where
  "multiply4x4_4x1 A B Copt =
     bind_p (or_new Copt (new_Matrix4x1 None))
       (\<lambda>C h.
          if same_view (arr A) (arr C) then (Inl CannotModifyAInPlace, h)
          else (Inr C, mul_column A B C 0 h))"

text \<open>
  The sixteen assignments of \<^verbatim>\<open>transpose4x4\<close>, \<open>dst[i] = src[j]\<close> in the order of the
  source, each reading the heap its predecessors left.
\<close>

definition transpose_pairs :: "(nat \<times> nat) list" where
  "transpose_pairs =
     [(0, 0), (1, 4), (2, 8), (3, 12), (4, 1), (5, 5), (6, 9), (7, 13),
      (8, 2), (9, 6), (10, 10), (11, 14), (12, 3), (13, 7), (14, 11), (15, 15)]"

definition transpose_elements :: "f32array \<Rightarrow> f32array \<Rightarrow> heap \<Rightarrow> heap" where
  "transpose_elements src dst h = fold (\<lambda>(i, j) h'. wr h' dst i (rd h' src j)) transpose_pairs h"

definition transpose4x4_in_place :: "matrix \<Rightarrow> unit prog" where
  "transpose4x4_in_place A =
     bind_p (new_Matrix4x4 None)
       (\<lambda>swp. bind_p (modify_p (transpose_elements (arr A) (arr swp)))
          (\<lambda>_. set_all A (Floats (arr swp))))"

definition transpose4x4 :: "matrix \<Rightarrow> matrix option \<Rightarrow> unit prog" where
  "transpose4x4 A Copt =
     (case Copt of
        None \<Rightarrow> transpose4x4_in_place A
      | Some C \<Rightarrow>
          if same_view (arr A) (arr C) then transpose4x4_in_place A
          else modify_p (transpose_elements (arr A) (arr C)))"

section \<open>Rotation about a vector\<close>

definition negate_element :: "matrix \<Rightarrow> nat \<Rightarrow> unit prog" where
  "negate_element M i = modify_p (\<lambda>h. wr h (arr M) i (- 1 * rd h (arr M) i))"

definition divide_element :: "matrix \<Rightarrow> nat \<Rightarrow> real \<Rightarrow> unit prog" where
  "divide_element M i d = modify_p (\<lambda>h. wr h (arr M) i (fdiv (rd h (arr M) i) d))"

definition set_element :: "matrix \<Rightarrow> nat \<Rightarrow> real \<Rightarrow> unit prog" where
  "set_element M i x = modify_p (\<lambda>h. wr h (arr M) i x)"

text \<open>\<^verbatim>\<open>Math.acos(dot3(A, B) / norm3(A))\<close>, the expression of both angles.\<close>

definition acos_dot3_over_norm3 :: "matrix \<Rightarrow> matrix \<Rightarrow> heap \<Rightarrow> real" where
  "acos_dot3_over_norm3 A B h = Math_acos (fdiv (dot3 A B h) (norm3 A h))"

definition new_Float32Array_of :: "real list \<Rightarrow> f32array prog" where
  "new_Float32Array_of xs h =
     (let (v, h') = new_Float32Array (length xs) h in (Inr v, wr_from h' v 0 xs))"

definition get_rot_v :: "real \<Rightarrow> matrix \<Rightarrow> matrix option \<Rightarrow> matrix prog" where
  "get_rot_v radians v Copt =
     bind_p (or_new Copt (new_Matrix4x4 None)) (\<lambda>C.
     bind_p (read_p (norm3 v)) (\<lambda>vnorm.
     bind_p (copy4x1 v None) (\<lambda>v_unit.
     bind_p (divide_element v_unit 0 vnorm) (\<lambda>_.
     bind_p (divide_element v_unit 1 vnorm) (\<lambda>_.
     bind_p (divide_element v_unit 2 vnorm) (\<lambda>_.
     bind_p (new_Float32Array_of [0, 0, 1, 0]) (\<lambda>z_arr.
     bind_p (new_Matrix4x1 (Some z_arr)) (\<lambda>z_unit.
     bind_p (copy4x1 v_unit None) (\<lambda>tmp_vec.
     bind_p (set_element tmp_vec 0 0) (\<lambda>_.
     bind_p (read_p (acos_dot3_over_norm3 tmp_vec z_unit)) (\<lambda>theta_x.
     bind_p (get_rot_x theta_x None) (\<lambda>R_x.
     bind_p (copy4x4 R_x None) (\<lambda>R_x_i.
     bind_p (negate_element R_x 6) (\<lambda>_.
     bind_p (negate_element R_x 9) (\<lambda>_.
     bind_p (multiply4x4_4x1 R_x v_unit (Some tmp_vec)) (\<lambda>_.
     bind_p (read_p (acos_dot3_over_norm3 tmp_vec z_unit)) (\<lambda>theta_y.
     bind_p (get_rot_y theta_y None) (\<lambda>R_y.
     bind_p (copy4x4 R_y None) (\<lambda>R_y_i.
     bind_p (negate_element R_y_i 2) (\<lambda>_.
     bind_p (negate_element R_y_i 8) (\<lambda>_.
     bind_p (getI4x4 None) (\<lambda>cumulative.
     bind_p (new_Matrix4x4 None) (\<lambda>tmp_mat.
     bind_p (multiply4x4_4x4 R_x cumulative (Some cumulative)) (\<lambda>_.
     bind_p (multiply4x4_4x4 R_y cumulative (Some cumulative)) (\<lambda>_.
     bind_p (get_rot_z radians None) (\<lambda>R_z.
     bind_p (multiply4x4_4x4 R_z cumulative (Some cumulative)) (\<lambda>_.
     bind_p (multiply4x4_4x4 R_y_i cumulative (Some cumulative)) (\<lambda>_.
     bind_p (multiply4x4_4x4 R_x_i cumulative (Some cumulative)) (\<lambda>_.
     bind_p (copy4x4 cumulative (Some C)) (\<lambda>_.
     return_p C))))))))))))))))))))))))))))))"

section \<open>The class Camera\<close>

datatype Axis = X | Y | Z

record camera =
  res_x :: real
  res_y :: real
  max_px :: real
  max_view_angle_rad :: real
  px_density :: real
  aspect_ratio :: real
  e_z :: real
  swp :: matrix
  inv_rot :: matrix
  inv_tra :: matrix
  camera_transform :: matrix

text \<open>
  The field initialisers construct the four matrices, the constructor body stores the
  identity in each. The numeric fields hold no number before
  \<^verbatim>\<open>set_res_and_view_angle\<close>: unspecified in the model.
\<close>

definition new_Camera :: "camera prog" where
  "new_Camera =
     bind_p (new_Matrix4x4 None) (\<lambda>m_swp.
     bind_p (new_Matrix4x4 None) (\<lambda>m_inv_rot.
     bind_p (new_Matrix4x4 None) (\<lambda>m_inv_tra.
     bind_p (new_Matrix4x4 None) (\<lambda>m_camera_transform.
     bind_p (getI4x4 (Some (arr m_swp))) (\<lambda>_.
     bind_p (getI4x4 (Some (arr m_inv_rot))) (\<lambda>_.
     bind_p (getI4x4 (Some (arr m_camera_transform))) (\<lambda>_.
     bind_p (getI4x4 (Some (arr m_inv_tra))) (\<lambda>_.
     return_p
       \<lparr>res_x = undefined, res_y = undefined, max_px = undefined,
        max_view_angle_rad = undefined, px_density = undefined, aspect_ratio = undefined,
        e_z = undefined,
        swp = m_swp, inv_rot = m_inv_rot, inv_tra = m_inv_tra,
        camera_transform = m_camera_transform\<rparr>))))))))"

definition set_pos :: "camera \<Rightarrow> matrix \<Rightarrow> unit prog" where
  "set_pos cam pos =
     modify_p (\<lambda>h.
       let h1 = wr h (arr (inv_tra cam)) 12 (- rd h (arr pos) 0);
           h2 = wr h1 (arr (inv_tra cam)) 13 (- rd h1 (arr pos) 1);
           h3 = wr h2 (arr (inv_tra cam)) 14 (- rd h2 (arr pos) 2)
       in wr h3 (arr (inv_tra cam)) 15 1)"

definition set_rot :: "camera \<Rightarrow> real \<Rightarrow> real \<Rightarrow> real \<Rightarrow> unit prog" where
  "set_rot cam x yp zpp =
     bind_p (get_rot_z (- zpp) (Some (inv_rot cam))) (\<lambda>_.
     bind_p (get_rot_y (- yp) (Some (swp cam))) (\<lambda>_.
     bind_p (multiply4x4_4x4 (swp cam) (inv_rot cam) (Some (inv_rot cam))) (\<lambda>_.
     bind_p (get_rot_x (- x) (Some (swp cam))) (\<lambda>_.
     bind_p (multiply4x4_4x4 (swp cam) (inv_rot cam) (Some (inv_rot cam))) (\<lambda>_.
     return_p ())))))"

definition update_cam_transform :: "camera \<Rightarrow> unit prog" where
  "update_cam_transform cam =
     bind_p (multiply4x4_4x4 (inv_rot cam) (inv_tra cam) (Some (camera_transform cam)))
       (\<lambda>_. return_p ())"

text \<open>
  The guard of \<^verbatim>\<open>perspective_project\<close> is \<^verbatim>\<open>input.cols === output.cols\<close>, without a
  call: it compares the value of the property \<^verbatim>\<open>cols\<close> of the two objects, which for every
  matrix is the one function object that the class defines.
\<close>

datatype function_object = Matrix_prototype_rows | Matrix_prototype_cols

definition cols_property :: "matrix \<Rightarrow> function_object" where
  "cols_property M = Matrix_prototype_cols"

definition project_column :: "camera \<Rightarrow> matrix \<Rightarrow> matrix \<Rightarrow> nat \<Rightarrow> heap \<Rightarrow> heap" where
  "project_column cam input output i h =
     (let x = rd h (arr input) i;
          y = rd h (arr input) (i + 1);
          z = rd h (arr input) (i + 2);
          rel_tri = fdiv (e_z cam) z;
          h1 = wr h (arr output) i (0.5 * res_x cam + 0.5 * max_px cam * rel_tri * x);
          h2 = wr h1 (arr output) (i + 1) (0.5 * res_y cam + 0.5 * max_px cam * rel_tri * y);
          h3 = wr h2 (arr output) (i + 2) rel_tri
      in wr h3 (arr output) (i + 3) 1)"

function perspective_project_loop :: "camera \<Rightarrow> matrix \<Rightarrow> matrix \<Rightarrow> nat \<Rightarrow> heap \<Rightarrow> heap" where
  "perspective_project_loop cam input output i h =
     (if i < arr_length (arr input)
      then perspective_project_loop cam input output (i + 4) (project_column cam input output i h)
      else h)"
  by pat_completeness auto
termination
  by (relation "measure (\<lambda>(cam, input, output, i, h). arr_length (arr input) - i)") auto

definition perspective_project :: "camera \<Rightarrow> matrix \<Rightarrow> matrix option \<Rightarrow> matrix prog" where
  "perspective_project cam input outopt =
     bind_p (or_new outopt (new_Matrix4xN (real (cols input)) None))
       (\<lambda>output h.
          if cols_property input = cols_property output
          then (Inr output, perspective_project_loop cam input output 0 h)
          else (Inr output, h))"

definition capture :: "camera \<Rightarrow> matrix \<Rightarrow> matrix option \<Rightarrow> matrix prog" where
  "capture cam points relopt =
     bind_p (or_new relopt (new_Matrix4xN (real (cols points)) None)) (\<lambda>relpos.
     bind_p (multiply4x4_4xN (camera_transform cam) points (Some relpos)) (\<lambda>_.
     bind_p (perspective_project cam relpos (Some relpos)) (\<lambda>_.
     return_p relpos)))"

definition set_res_and_view_angle :: "real \<Rightarrow> real \<Rightarrow> real \<Rightarrow> camera \<Rightarrow> camera" where
  "set_res_and_view_angle new_res_x new_res_y new_max_view_angle_rad cam =
     (let c1 = cam\<lparr>res_x := new_res_x\<rparr>;
          c2 = c1\<lparr>res_y := new_res_y\<rparr>;
          c3 = c2\<lparr>max_px := max (res_x c2) (res_y c2)\<rparr>;
          c4 = c3\<lparr>max_view_angle_rad := new_max_view_angle_rad\<rparr>;
          c5 = c4\<lparr>aspect_ratio := fdiv new_res_x new_res_y\<rparr>;
          c6 = c5\<lparr>e_z := fdiv 1 (tan (max_view_angle_rad c5 / 2))\<rparr>
      in if res_x c6 > res_y c6
         then c6\<lparr>px_density := fdiv (0.5 * res_x c6) (max_view_angle_rad c6)\<rparr>
         else c6\<lparr>px_density := fdiv (0.5 * res_y c6) (max_view_angle_rad c6)\<rparr>)"

definition rot_into_swp :: "camera \<Rightarrow> Axis \<Rightarrow> real \<Rightarrow> matrix prog" where
  "rot_into_swp cam A theta =
     (case A of
        X \<Rightarrow> get_rot_x theta (Some (swp cam))
      | Y \<Rightarrow> get_rot_y theta (Some (swp cam))
      | Z \<Rightarrow> get_rot_z theta (Some (swp cam)))"

definition g_rot :: "camera \<Rightarrow> Axis \<Rightarrow> real \<Rightarrow> unit prog" where
  "g_rot cam A theta =
     bind_p (rot_into_swp cam A theta) (\<lambda>_.
     bind_p (multiply4x4_4x4 (swp cam) (inv_rot cam) (Some (inv_rot cam))) (\<lambda>_.
     return_p ()))"

definition l_rot :: "camera \<Rightarrow> Axis \<Rightarrow> real \<Rightarrow> unit prog" where
  "l_rot cam A theta =
     bind_p (rot_into_swp cam A theta) (\<lambda>_.
     bind_p (multiply4x4_4x4 (inv_rot cam) (swp cam) (Some (swp cam))) (\<lambda>_.
     set_all (inv_rot cam) (Floats (arr (swp cam)))))"

section \<open>The product and the transpose of matrices, as mathematics has them\<close>

text \<open>
  Matrices are the lists of their elements in column-major order. Element \<open>i\<close> of the
  product of a matrix \<open>A\<close> of four rows and four columns with a matrix \<open>B\<close> of four rows is
  row \<open>i mod 4\<close> of \<open>A\<close> times column \<open>i div 4\<close> of \<open>B\<close>; element \<open>i\<close> of the transpose of a
  four by four matrix is its element in row \<open>i div 4\<close> and column \<open>i mod 4\<close>.
\<close>

definition mat_prod_element :: "real list \<Rightarrow> real list \<Rightarrow> nat \<Rightarrow> real" where
  "mat_prod_element A B i =
     A ! (i mod 4) * B ! (4 * (i div 4)) + A ! (i mod 4 + 4) * B ! (4 * (i div 4) + 1) +
     A ! (i mod 4 + 8) * B ! (4 * (i div 4) + 2) + A ! (i mod 4 + 12) * B ! (4 * (i div 4) + 3)"

definition mat_prod :: "real list \<Rightarrow> real list \<Rightarrow> real list" where
  "mat_prod A B = map (mat_prod_element A B) [0..<length B]"

definition mat_transpose :: "real list \<Rightarrow> real list" where
  "mat_transpose A = map (\<lambda>i. A ! (4 * (i mod 4) + i div 4)) [0..<16]"

section \<open>Objects for the proofs\<close>

text \<open>Two windows share no cell.\<close>

definition apart :: "f32array \<Rightarrow> f32array \<Rightarrow> bool" where
  "apart v w \<longleftrightarrow>
     buffer v \<noteq> buffer w \<or> cell v (arr_length v) \<le> cell w 0 \<or> cell w (arr_length w) \<le> cell v 0"

text \<open>Row \<open>r\<close> of \<open>A\<close> times the column of \<open>B\<close> that starts at \<open>B.arr[offset]\<close>, read in \<open>h\<close>.\<close>

definition column_sum :: "heap \<Rightarrow> matrix \<Rightarrow> matrix \<Rightarrow> nat \<Rightarrow> nat \<Rightarrow> real" where
  "column_sum h A B offset r =
     rd h (arr A) r * rd h (arr B) (offset + 0) + rd h (arr A) (r + 4) * rd h (arr B) (offset + 1) +
     rd h (arr A) (r + 8) * rd h (arr B) (offset + 2) + rd h (arr A) (r + 12) * rd h (arr B) (offset + 3)"

text \<open>The matrix that a kernel constructs when its output is omitted.\<close>

definition fresh4xN :: "heap \<Rightarrow> nat \<Rightarrow> matrix" where
  "fresh4xN h n =
     \<lparr>row_count = 4, col_count = n,
      arr = \<lparr>buffer = length h, byteOffset = 0, byteLength = 4 * (4 * n)\<rparr>\<rparr>"

text \<open>A matrix of four rows that owns buffer \<open>b\<close>, and a heap of two such buffers.\<close>

definition matrix_on :: "nat \<Rightarrow> nat \<Rightarrow> matrix" where
  "matrix_on b n =
     \<lparr>row_count = 4, col_count = n, arr = \<lparr>buffer = b, byteOffset = 0, byteLength = 16 * n\<rparr>\<rparr>"

definition heap_two :: heap where
  "heap_two =
     [[1, 0, 0, 0,  0, 2, 0, 0,  0, 0, 3, 0,  5, 6, 7, 1],
      [1, 2, 3, 1,  4, 5, 6, 1,  7, 8, 9, 1,  0, 1, 0, 1]]"

text \<open>A call that stores in one array only.\<close>

definition stores_only_in :: "f32array \<Rightarrow> heap \<Rightarrow> heap \<Rightarrow> bool" where
  "stores_only_in v h h' \<longleftrightarrow>
     (\<forall>w. view_ok h' w = view_ok h w) \<and> (\<forall>w. apart w v \<longrightarrow> contents h' w = contents h w)"

text \<open>
  A camera as its constructor leaves it on the empty heap: four matrices on the buffers 0
  to 3, each holding the identity.
\<close>

definition identity_cells :: "real list" where
  "identity_cells = [1, 0, 0, 0,  0, 1, 0, 0,  0, 0, 1, 0,  0, 0, 0, 1]"

definition heap_camera :: heap where
  "heap_camera = [identity_cells, identity_cells, identity_cells, identity_cells]"

definition camera_one :: camera where
  "camera_one =
     \<lparr>res_x = undefined, res_y = undefined, max_px = undefined,
      max_view_angle_rad = undefined, px_density = undefined, aspect_ratio = undefined,
      e_z = undefined,
      swp = matrix_on 0 4, inv_rot = matrix_on 1 4, inv_tra = matrix_on 2 4,
      camera_transform = matrix_on 3 4\<rparr>"

text \<open>
  Element \<open>r\<close> of the image of the point whose coordinates start at \<open>input.arr[i]\<close>, read
  in \<open>h\<close>.
\<close>

definition projected :: "camera \<Rightarrow> heap \<Rightarrow> matrix \<Rightarrow> nat \<Rightarrow> nat \<Rightarrow> real" where
  "projected cam h input i r =
     (let x = rd h (arr input) i;
          y = rd h (arr input) (i + 1);
          z = rd h (arr input) (i + 2);
          rel_tri = fdiv (e_z cam) z
      in [0.5 * res_x cam + 0.5 * max_px cam * rel_tri * x,
          0.5 * res_y cam + 0.5 * max_px cam * rel_tri * y,
          rel_tri,
          1] ! r)"

text \<open>The heap of that camera with one more buffer, which holds the point \<open>(1, 0, 1, 1)\<close>.\<close>

definition heap_point :: heap where
  "heap_point = heap_camera @ [[1, 0, 1, 1]]"

text \<open>
  The continuation of a call that has returned or thrown: \<open>bind_p m f h\<close> is
  \<open>continue_with (m h) f\<close>. It lets a run on a given heap be computed call by call.
\<close>

definition continue_with :: "(error + 'a) \<times> heap \<Rightarrow> ('a \<Rightarrow> 'b prog) \<Rightarrow> (error + 'b) \<times> heap" where
  "continue_with r f = (case r of (Inl e, h') \<Rightarrow> (Inl e, h') | (Inr x, h') \<Rightarrow> f x h')"

section \<open>The rotation about a vector, as the specification composes it\<close>

text \<open>
  The specification's composition for an angle and an axis: normalise the axis; \<open>Rx\<close> is the
  rotation about X by the arccos of the dot product of the normalised projection of the
  axis on the YZ plane with the unit vector of Z; \<open>Ry\<close> is the rotation about Y by the same
  arccos construction for the axis rotated by \<open>Rx\<close>; each inverse is the rotation with its two
  sine entries negated; the result is \<open>Rx\<^sup>-\<^sup>1 \<cdot> Ry\<^sup>-\<^sup>1 \<cdot> Rz(angle) \<cdot> Ry \<cdot> Rx\<close>.
\<close>

definition negate_two :: "nat \<Rightarrow> nat \<Rightarrow> real list \<Rightarrow> real list" where
  "negate_two i j xs = (xs[i := - (xs ! i)])[j := - (xs ! j)]"

definition spec_rot_v :: "real \<Rightarrow> real list \<Rightarrow> real list" where
  "spec_rot_v angle axis =
     (let n = sqrt (axis ! 0 * axis ! 0 + axis ! 1 * axis ! 1 + axis ! 2 * axis ! 2);
          u = [axis ! 0 / n, axis ! 1 / n, axis ! 2 / n, axis ! 3];
          theta_x = arccos (u ! 2 / sqrt (u ! 1 * u ! 1 + u ! 2 * u ! 2));
          Rx = rot_x_elements theta_x;
          w = mat_prod Rx u;
          theta_y = arccos (w ! 2 / sqrt (w ! 0 * w ! 0 + w ! 1 * w ! 1 + w ! 2 * w ! 2));
          Ry = rot_y_elements theta_y
      in mat_prod (negate_two 6 9 Rx)
           (mat_prod (negate_two 2 8 Ry)
              (mat_prod (rot_z_elements angle) (mat_prod Ry Rx))))"

section \<open>Reading after writing\<close>

lemma wr_beyond: "\<not> buffer v < length h \<Longrightarrow> wr h v i x = h"
  by (simp add: wr_def list_update_beyond)

lemma length_wr [simp]: "length (wr h v i x) = length h"
  by (simp add: wr_def)

lemma length_buffer_wr [simp]: "length (wr h v i x ! b) = length (h ! b)"
proof (cases "buffer v < length h")
  case True
  then show ?thesis
    by (cases "b = buffer v") (simp_all add: wr_def)
next
  case False
  then show ?thesis by (simp add: wr_beyond)
qed

lemma view_ok_wr [simp]: "view_ok (wr h v i x) w = view_ok h w"
  by (simp add: view_ok_def)

lemma rd_wr:
  assumes "view_ok h v" and "i < arr_length v"
  shows "rd (wr h v i x) w j =
           (if j < arr_length w \<and> buffer w = buffer v \<and> cell w j = cell v i then x else rd h w j)"
proof -
  have b: "buffer v < length h" and c: "cell v i < length (h ! buffer v)"
    using assms by (simp_all add: view_ok_def cell_def)
  show ?thesis
  proof (cases "buffer w = buffer v")
    case True
    with b c assms(2) show ?thesis
      by (simp add: rd_def wr_def nth_list_update)
  next
    case False
    with b show ?thesis
      by (simp add: rd_def wr_def)
  qed
qed

lemma rd_wr_same_view:
  assumes "view_ok h v" and "i < arr_length v"
  shows "rd (wr h v i x) v j = (if j = i then x else rd h v j)"
  using assms by (auto simp add: rd_wr cell_def)

lemma rd_wr_apart:
  assumes "apart w v"
  shows "rd (wr h v i x) w j = rd h w j"
proof (cases "i < arr_length v \<and> j < arr_length w \<and> buffer w = buffer v")
  case True
  then have ne: "cell w j \<noteq> cell v i"
    using assms by (auto simp add: apart_def cell_def)
  show ?thesis
  proof (cases "buffer v < length h")
    case b: True
    with True ne show ?thesis
      by (simp add: rd_def wr_def nth_list_update)
  next
    case False
    then show ?thesis by (simp add: wr_beyond)
  qed
next
  case False
  then show ?thesis
    by (cases "buffer v < length h") (auto simp add: rd_def wr_def)
qed

lemma rd_mul_column_output:
  assumes "view_ok h (arr C)" and "offset + 4 \<le> arr_length (arr C)"
  shows "rd (mul_column A B C offset h) (arr C) j =
           (if offset \<le> j \<and> j < offset + 4 then column_sum h A B offset (j - offset)
            else rd h (arr C) j)"
proof -
  have "j = offset \<or> j = offset + 1 \<or> j = offset + 2 \<or> j = offset + 3 \<or> j < offset \<or> offset + 4 \<le> j"
    by arith
  then show ?thesis
    using assms
    by (elim disjE) (simp_all add: mul_column_def Let_def rd_wr_same_view column_sum_def)
qed

lemma rd_mul_column_apart:
  assumes "apart w (arr C)"
  shows "rd (mul_column A B C offset h) w j = rd h w j"
  using assms by (simp add: mul_column_def Let_def rd_wr_apart)

lemma length_mul_column [simp]: "length (mul_column A B C offset h) = length h"
  by (simp add: mul_column_def Let_def)

lemma length_buffer_mul_column [simp]: "length (mul_column A B C offset h ! b) = length (h ! b)"
  by (simp add: mul_column_def Let_def)

lemma view_ok_mul_column [simp]: "view_ok (mul_column A B C offset h) w = view_ok h w"
  by (simp add: view_ok_def)

section \<open>The column loop of the batch product\<close>

declare multiply4x4_4xN_loop.simps [simp del]

lemma rd_loop_apart:
  assumes "apart w (arr C)"
  shows "rd (multiply4x4_4xN_loop A B C offset h) w j = rd h w j"
  using assms
proof (induction A B C offset h rule: multiply4x4_4xN_loop.induct)
  case (1 A B C offset h)
  then show ?case
    by (subst multiply4x4_4xN_loop.simps) (simp add: rd_mul_column_apart)
qed

lemma length_loop [simp]: "length (multiply4x4_4xN_loop A B C offset h) = length h"
proof (induction A B C offset h rule: multiply4x4_4xN_loop.induct)
  case (1 A B C offset h)
  then show ?case
    by (subst multiply4x4_4xN_loop.simps) simp
qed

lemma view_ok_loop [simp]: "view_ok (multiply4x4_4xN_loop A B C offset h) w = view_ok h w"
proof (induction A B C offset h rule: multiply4x4_4xN_loop.induct)
  case (1 A B C offset h)
  then show ?case
    by (subst multiply4x4_4xN_loop.simps) simp
qed

lemma column_sum_cong:
  assumes "\<And>i. rd h1 (arr A) i = rd h (arr A) i"
    and "\<And>k. k < 4 \<Longrightarrow> rd h1 (arr B) (offset + k) = rd h (arr B) (offset + k)"
  shows "column_sum h1 A B offset r = column_sum h A B offset r"
proof -
  have "rd h1 (arr B) (offset + 0) = rd h (arr B) (offset + 0)"
    and "rd h1 (arr B) (offset + 1) = rd h (arr B) (offset + 1)"
    and "rd h1 (arr B) (offset + 2) = rd h (arr B) (offset + 2)"
    and "rd h1 (arr B) (offset + 3) = rd h (arr B) (offset + 3)"
    by (rule assms(2), simp)+
  then show ?thesis
    unfolding column_sum_def by (simp only: assms(1))
qed

lemma rd_loop_output:
  assumes "view_ok h (arr C)"
    and "arr_length (arr C) = arr_length (arr B)"
    and "arr_length (arr B) = 4 * n"
    and "apart (arr A) (arr C)"
    and "arr B = arr C \<or> apart (arr B) (arr C)"
    and "c \<le> n"
  shows "rd (multiply4x4_4xN_loop A B C (4 * c) h) (arr C) j =
           (if 4 * c \<le> j \<and> j < 4 * n then column_sum h A B (4 * (j div 4)) (j mod 4)
            else rd h (arr C) j)"
  using assms(1,6)
proof (induction "n - c" arbitrary: c h)
  case 0
  then have "c = n" by simp
  then show ?case
    using assms(3) by (subst multiply4x4_4xN_loop.simps) simp
next
  case (Suc k)
  define h1 where "h1 = mul_column A B C (4 * c) h"
  from Suc.hyps(2) have c: "c < n" by simp
  have fits: "4 * c + 4 \<le> arr_length (arr C)"
    using c assms(2,3) by simp
  have unfold: "multiply4x4_4xN_loop A B C (4 * c) h = multiply4x4_4xN_loop A B C (4 * Suc c) h1"
    using c assms(3) by (subst multiply4x4_4xN_loop.simps) (simp add: h1_def add.commute)
  have ok1: "view_ok h1 (arr C)"
    using Suc.prems(1) by (simp add: h1_def)
  have IH: "rd (multiply4x4_4xN_loop A B C (4 * Suc c) h1) (arr C) j =
           (if 4 * Suc c \<le> j \<and> j < 4 * n then column_sum h1 A B (4 * (j div 4)) (j mod 4)
            else rd h1 (arr C) j)"
    using Suc.hyps(1) [of "Suc c" h1] Suc.hyps(2) ok1 c by simp
  have A1: "rd h1 (arr A) i = rd h (arr A) i" for i
    using assms(4) by (simp add: h1_def rd_mul_column_apart)
  have B1: "rd h1 (arr B) i = rd h (arr B) i" if "4 * c + 4 \<le> i" for i
    using assms(5)
  proof
    assume "arr B = arr C"
    then show ?thesis
      using that Suc.prems(1) fits by (simp add: h1_def rd_mul_column_output)
  next
    assume "apart (arr B) (arr C)"
    then show ?thesis by (simp add: h1_def rd_mul_column_apart)
  qed
  have C1: "rd h1 (arr C) j =
              (if 4 * c \<le> j \<and> j < 4 * c + 4 then column_sum h A B (4 * c) (j - 4 * c)
               else rd h (arr C) j)"
    using Suc.prems(1) fits by (simp add: h1_def rd_mul_column_output)
  have step: "rd (multiply4x4_4xN_loop A B C (4 * c) h) (arr C) j =
           (if 4 * Suc c \<le> j \<and> j < 4 * n then column_sum h1 A B (4 * (j div 4)) (j mod 4)
            else rd h1 (arr C) j)"
    by (simp only: unfold IH)
  show ?case
  proof (cases "4 * Suc c \<le> j \<and> j < 4 * n")
    case True
    then have "4 * c + 4 \<le> 4 * (j div 4)" by presburger
    then have "column_sum h1 A B (4 * (j div 4)) (j mod 4) = column_sum h A B (4 * (j div 4)) (j mod 4)"
      by (intro column_sum_cong A1 B1) simp
    with True show ?thesis
      by (simp add: step)
  next
    case False
    show ?thesis
    proof (cases "4 * c \<le> j \<and> j < 4 * c + 4")
      case True
      then have "j div 4 = c" and "j mod 4 = j - 4 * c"
        by presburger+
      with True c show ?thesis
        using False by (simp add: step C1)
    next
      case F2: False
      have "rd (multiply4x4_4xN_loop A B C (4 * c) h) (arr C) j = rd h1 (arr C) j"
        using False by (simp only: step if_False)
      moreover have "rd h1 (arr C) j = rd h (arr C) j"
        using F2 by (simp only: C1 if_False)
      moreover have "\<not> (4 * c \<le> j \<and> j < 4 * n)"
        using False F2 by arith
      ultimately show ?thesis
        by (simp only: if_False)
    qed
  qed
qed

section \<open>Stores outside the window\<close>

lemma wr_int_negative: "i < 0 \<Longrightarrow> wr_int h v i x = h"
  by (simp add: wr_int_def)

lemma fold_wr_int_negative:
  assumes "\<And>i. i \<in> set is \<Longrightarrow> f i < 0"
  shows "fold (\<lambda>i h'. wr_int h' v (f i) (g h' i)) is h = h"
  using assms by (induction "is" arbitrary: h) (simp_all add: wr_int_negative)

lemma negative_column_index:
  fixes column :: int
  assumes "column < 0" and "i < R"
  shows "int i + column * int R < 0"
proof -
  have "column * int R \<le> - 1 * int R"
    using assms(1) by (intro mult_right_mono) simp_all
  then show ?thesis
    using assms(2) by simp
qed

text \<open>
  C9. For a matrix with \<open>R\<close> rows and values of length exactly \<open>R\<close>, \<^verbatim>\<open>set_column\<close> with a
  negative column index throws nothing and leaves every element unchanged (the whole heap
  is the one before the call): the check only rejects \<open>column \<ge> col_count\<close>, and each store
  goes to a negative index of the \<^verbatim>\<open>Float32Array\<close>, where it is discarded.
\<close>

theorem set_column_negative_column:
  assumes "column < 0" and "vals_length values = row_count M"
  shows "set_column M column values h = (Inr (), h)"
proof -
  have "fold (\<lambda>i h'. wr_int h' (arr M) (int i + column * int (row_count M)) (vals_rd h' values i))
          [0..<row_count M] h = h"
    by (rule fold_wr_int_negative) (simp add: negative_column_index assms(1))
  then show ?thesis
    using assms by (simp add: set_column_def)
qed

theorem set_column_negative_column_witness:
  "(- 1 :: int) < 0 \<and>
   vals_length (Numbers [9, 9]) =
     row_count \<lparr>row_count = 2, col_count = 2,
                arr = \<lparr>buffer = 0, byteOffset = 0, byteLength = 16\<rparr>\<rparr> \<and>
   set_column \<lparr>row_count = 2, col_count = 2,
               arr = \<lparr>buffer = 0, byteOffset = 0, byteLength = 16\<rparr>\<rparr>
     (- 1) (Numbers [9, 9]) [[1, 2, 3, 4]] = (Inr (), [[1, 2, 3, 4]])"
  using set_column_negative_column [of "- 1" "Numbers [9, 9]"
      "\<lparr>row_count = 2, col_count = 2, arr = \<lparr>buffer = 0, byteOffset = 0, byteLength = 16\<rparr>\<rparr>"
      "[[1, 2, 3, 4]]"]
  by simp

section \<open>The generic product refuses both operands as output\<close>

text \<open>
  C10. Whatever the dimensions of \<open>A\<close> and \<open>B\<close>, the generic \<^verbatim>\<open>multiply\<close> called with an
  output that is the same view as \<open>B\<close>, or the same view as \<open>A\<close>, throws "Cannot modify
  Matrix arg in place." and the heap is the one before the call: the test is the first
  statement after the output is chosen, before any store.
\<close>

theorem multiply_output_same_view_as_operand:
  assumes "same_view (arr B) (arr C) \<or> same_view (arr A) (arr C)"
  shows "multiply A B (Some C) h = (Inl CannotModifyArgInPlace, h)"
  using assms by (auto simp add: multiply_def bind_p_def or_new_def return_p_def)

theorem multiply_output_same_view_as_operand_witness:
  "(same_view (arr \<lparr>row_count = 2, col_count = 2,
                     arr = \<lparr>buffer = 1, byteOffset = 0, byteLength = 16\<rparr>\<rparr>)
              (arr \<lparr>row_count = 2, col_count = 2,
                     arr = \<lparr>buffer = 1, byteOffset = 0, byteLength = 16\<rparr>\<rparr>) \<or>
    same_view (arr \<lparr>row_count = 2, col_count = 2,
                     arr = \<lparr>buffer = 0, byteOffset = 0, byteLength = 16\<rparr>\<rparr>)
              (arr \<lparr>row_count = 2, col_count = 2,
                     arr = \<lparr>buffer = 1, byteOffset = 0, byteLength = 16\<rparr>\<rparr>)) \<and>
   multiply
     \<lparr>row_count = 2, col_count = 2, arr = \<lparr>buffer = 0, byteOffset = 0, byteLength = 16\<rparr>\<rparr>
     \<lparr>row_count = 2, col_count = 2, arr = \<lparr>buffer = 1, byteOffset = 0, byteLength = 16\<rparr>\<rparr>
     (Some \<lparr>row_count = 2, col_count = 2,
            arr = \<lparr>buffer = 1, byteOffset = 0, byteLength = 16\<rparr>\<rparr>)
     [[1, 2, 3, 4], [5, 6, 7, 8]]
   = (Inl CannotModifyArgInPlace, [[1, 2, 3, 4], [5, 6, 7, 8]])"
  using multiply_output_same_view_as_operand
    [of "\<lparr>row_count = 2, col_count = 2, arr = \<lparr>buffer = 1, byteOffset = 0, byteLength = 16\<rparr>\<rparr>"
        "\<lparr>row_count = 2, col_count = 2, arr = \<lparr>buffer = 1, byteOffset = 0, byteLength = 16\<rparr>\<rparr>"
        "\<lparr>row_count = 2, col_count = 2, arr = \<lparr>buffer = 0, byteOffset = 0, byteLength = 16\<rparr>\<rparr>"
        "[[1, 2, 3, 4], [5, 6, 7, 8]]"]
  by (simp add: same_view_def)

section \<open>The kernels compute the product\<close>

lemma or_new_Some [simp]: "or_new (Some x) mk h = (Inr x, h)"
  by (simp add: or_new_def return_p_def)

lemma or_new_None [simp]: "or_new None mk = mk"
  by (simp add: or_new_def)

text \<open>The constructors, and what an allocation leaves in place.\<close>

lemma new_Matrix4xN_None:
  assumes "0 < n"
  shows "new_Matrix4xN (real n) None h =
           (Inr \<lparr>row_count = 4, col_count = n,
                 arr = \<lparr>buffer = length h, byteOffset = 0, byteLength = 4 * (4 * n)\<rparr>\<rparr>,
            h @ [replicate (4 * n) 0])"
  using assms by (simp add: new_Matrix4xN_def new_Matrix_def new_Float32Array_def Let_def)

lemma new_Matrix4x4_None:
  "new_Matrix4x4 None h =
     (Inr \<lparr>row_count = 4, col_count = 4,
           arr = \<lparr>buffer = length h, byteOffset = 0, byteLength = 64\<rparr>\<rparr>,
      h @ [replicate 16 0])"
  using new_Matrix4xN_None [of 4 h] by (simp add: new_Matrix4x4_def)

lemma new_Matrix4x1_None:
  "new_Matrix4x1 None h =
     (Inr \<lparr>row_count = 4, col_count = 1,
           arr = \<lparr>buffer = length h, byteOffset = 0, byteLength = 16\<rparr>\<rparr>,
      h @ [replicate 4 0])"
  using new_Matrix4xN_None [of 1 h] by (simp add: new_Matrix4x1_def)

lemma new_Matrix4xN_zero: "new_Matrix4xN (real 0) None h = (Inl ColsNotPositiveInteger, h)"
  by (simp add: new_Matrix4xN_def)

lemma rd_append:
  assumes "buffer w < length h"
  shows "rd (h @ bs) w j = rd h w j"
  using assms by (simp add: rd_def nth_append)

lemma view_ok_append:
  assumes "view_ok h w"
  shows "view_ok (h @ bs) w"
  using assms by (simp add: view_ok_def nth_append)

lemma contents_append:
  assumes "buffer w < length h"
  shows "contents (h @ bs) w = contents h w"
  using assms by (simp add: contents_def rd_append)

lemma view_ok_fresh:
  "view_ok (h @ [replicate n 0]) \<lparr>buffer = length h, byteOffset = 0, byteLength = 4 * n\<rparr>"
  by (simp add: view_ok_def arr_length_def cell_def)

lemma apart_fresh:
  assumes "buffer w < length h"
  shows "apart w \<lparr>buffer = length h, byteOffset = o', byteLength = l'\<rparr>"
  using assms by (simp add: apart_def)

lemma is_Matrix_append:
  "is_Matrix h M \<Longrightarrow> is_Matrix (h @ bs) M"
  "is_Matrix4xN h M \<Longrightarrow> is_Matrix4xN (h @ bs) M"
  "is_Matrix4x4 h M \<Longrightarrow> is_Matrix4x4 (h @ bs) M"
  "is_Matrix4x1 h M \<Longrightarrow> is_Matrix4x1 (h @ bs) M"
  by (simp_all add: is_Matrix_def is_Matrix4xN_def is_Matrix4x4_def is_Matrix4x1_def view_ok_append)

lemma is_Matrix_buffer:
  "is_Matrix h M \<Longrightarrow> buffer (arr M) < length h"
  "is_Matrix4xN h M \<Longrightarrow> buffer (arr M) < length h"
  "is_Matrix4x4 h M \<Longrightarrow> buffer (arr M) < length h"
  "is_Matrix4x1 h M \<Longrightarrow> buffer (arr M) < length h"
  by (simp_all add: is_Matrix_def is_Matrix4xN_def is_Matrix4x4_def is_Matrix4x1_def view_ok_def)

lemma apart_not_same_view:
  assumes "apart v w" and "0 < arr_length v"
  shows "\<not> same_view v w"
  using assms by (auto simp add: apart_def same_view_def cell_def arr_length_def)

lemma apart_sym: "apart v w \<Longrightarrow> apart w v"
  by (auto simp add: apart_def)

text \<open>The unrolled kernels are the loop at sixteen and at four cells.\<close>

lemma loop_16:
  assumes "arr_length (arr B) = 16"
  shows "multiply4x4_4xN_loop A B C 0 h =
           mul_column A B C 12 (mul_column A B C 8 (mul_column A B C 4 (mul_column A B C 0 h)))"
  using assms by (simp add: multiply4x4_4xN_loop.simps)

lemma loop_4:
  assumes "arr_length (arr B) = 4"
  shows "multiply4x4_4xN_loop A B C 0 h = mul_column A B C 0 h"
  using assms by (simp add: multiply4x4_4xN_loop.simps)

lemma column_sum_mat_prod_element:
  assumes "arr_length (arr A) = 16" and "arr_length (arr B) = 4 * n" and "j < 4 * n"
  shows "column_sum h A B (4 * (j div 4)) (j mod 4) =
           mat_prod_element (contents h (arr A)) (contents h (arr B)) j"
proof -
  have r: "j mod 4 < 4" by simp
  have "4 * (j div 4) + 3 < 4 * n"
    using assms(3) by presburger
  then show ?thesis
    using assms(1,2) r by (simp add: column_sum_def mat_prod_element_def contents_def)
qed

lemma loop_contents:
  assumes "view_ok h (arr C)"
    and "arr_length (arr A) = 16"
    and "arr_length (arr C) = arr_length (arr B)"
    and "arr_length (arr B) = 4 * n"
    and "apart (arr A) (arr C)"
    and "arr B = arr C \<or> apart (arr B) (arr C)"
  shows "contents (multiply4x4_4xN_loop A B C 0 h) (arr C) =
           mat_prod (contents h (arr A)) (contents h (arr B))"
proof (rule nth_equalityI)
  show "length (contents (multiply4x4_4xN_loop A B C 0 h) (arr C)) =
          length (mat_prod (contents h (arr A)) (contents h (arr B)))"
    using assms(3) by (simp add: contents_def mat_prod_def)
next
  fix j
  assume "j < length (contents (multiply4x4_4xN_loop A B C 0 h) (arr C))"
  then have j: "j < 4 * n"
    using assms(3,4) by (simp add: contents_def)
  have "rd (multiply4x4_4xN_loop A B C (4 * 0) h) (arr C) j =
          (if 4 * 0 \<le> j \<and> j < 4 * n then column_sum h A B (4 * (j div 4)) (j mod 4)
           else rd h (arr C) j)"
    using assms by (intro rd_loop_output) simp_all
  with j have "rd (multiply4x4_4xN_loop A B C 0 h) (arr C) j =
      mat_prod_element (contents h (arr A)) (contents h (arr B)) j"
    using assms(2,4) by (simp add: column_sum_mat_prod_element)
  with j show "contents (multiply4x4_4xN_loop A B C 0 h) (arr C) ! j =
          mat_prod (contents h (arr A)) (contents h (arr B)) ! j"
    using assms(3,4) by (simp add: contents_def mat_prod_def)
qed

lemma contents_loop_apart:
  assumes "apart w (arr C)"
  shows "contents (multiply4x4_4xN_loop A B C offset h) w = contents h w"
  using assms by (simp add: contents_def rd_loop_apart)


text \<open>The three kernels with an output passed.\<close>

lemma multiply4x4_4xN_Some:
  assumes "is_Matrix4x4 h A" and "is_Matrix4xN h B" and "is_Matrix4xN h C"
    and "col_count C = col_count B"
    and "apart (arr A) (arr C)"
    and "arr B = arr C \<or> apart (arr B) (arr C)"
  shows "multiply4x4_4xN A B (Some C) h = (Inr C, multiply4x4_4xN_loop A B C 0 h)"
    and "contents (multiply4x4_4xN_loop A B C 0 h) (arr C) =
           mat_prod (contents h (arr A)) (contents h (arr B))"
proof -
  have lenA: "arr_length (arr A) = 16"
    using assms(1) by (simp add: is_Matrix4x4_def is_Matrix4xN_def is_Matrix_def)
  have lenB: "arr_length (arr B) = 4 * col_count B"
    using assms(2) by (simp add: is_Matrix4xN_def is_Matrix_def)
  have lenC: "arr_length (arr C) = arr_length (arr B)" and okC: "view_ok h (arr C)"
    using assms(3,4) lenB by (simp_all add: is_Matrix4xN_def is_Matrix_def)
  have "\<not> same_view (arr A) (arr C)"
    using assms(5) lenA by (simp add: apart_not_same_view)
  then show "multiply4x4_4xN A B (Some C) h = (Inr C, multiply4x4_4xN_loop A B C 0 h)"
    using assms(4) by (simp add: multiply4x4_4xN_def bind_p_def cols_def)
  show "contents (multiply4x4_4xN_loop A B C 0 h) (arr C) =
           mat_prod (contents h (arr A)) (contents h (arr B))"
    using okC lenA lenC lenB assms(5,6) by (rule loop_contents)
qed

lemma multiply4x4_4x4_Some:
  assumes "is_Matrix4x4 h A" and "is_Matrix4x4 h B" and "is_Matrix4x4 h C"
    and "apart (arr A) (arr C)"
    and "arr B = arr C \<or> apart (arr B) (arr C)"
  shows "multiply4x4_4x4 A B (Some C) h = (Inr C, multiply4x4_4xN_loop A B C 0 h)"
    and "contents (multiply4x4_4xN_loop A B C 0 h) (arr C) =
           mat_prod (contents h (arr A)) (contents h (arr B))"
proof -
  have lenA: "arr_length (arr A) = 16" and lenB: "arr_length (arr B) = 16"
    using assms(1,2) by (simp_all add: is_Matrix4x4_def is_Matrix4xN_def is_Matrix_def)
  have "\<not> same_view (arr A) (arr C)"
    using assms(4) lenA by (simp add: apart_not_same_view)
  then show "multiply4x4_4x4 A B (Some C) h = (Inr C, multiply4x4_4xN_loop A B C 0 h)"
    using lenB by (simp add: multiply4x4_4x4_def bind_p_def loop_16)
  have "is_Matrix4xN h B" and "is_Matrix4xN h C" and "col_count C = col_count B"
    using assms(2,3) by (simp_all add: is_Matrix4x4_def)
  then show "contents (multiply4x4_4xN_loop A B C 0 h) (arr C) =
           mat_prod (contents h (arr A)) (contents h (arr B))"
    using assms(1,4,5) by (intro multiply4x4_4xN_Some(2))
qed

lemma multiply4x4_4x1_Some:
  assumes "is_Matrix4x4 h A" and "is_Matrix4x1 h B" and "is_Matrix4x1 h C"
    and "apart (arr A) (arr C)"
    and "arr B = arr C \<or> apart (arr B) (arr C)"
  shows "multiply4x4_4x1 A B (Some C) h = (Inr C, multiply4x4_4xN_loop A B C 0 h)"
    and "contents (multiply4x4_4xN_loop A B C 0 h) (arr C) =
           mat_prod (contents h (arr A)) (contents h (arr B))"
proof -
  have lenA: "arr_length (arr A) = 16" and lenB: "arr_length (arr B) = 4"
    using assms(1,2)
    by (simp_all add: is_Matrix4x4_def is_Matrix4x1_def is_Matrix4xN_def is_Matrix_def)
  have "\<not> same_view (arr A) (arr C)"
    using assms(4) lenA by (simp add: apart_not_same_view)
  then show "multiply4x4_4x1 A B (Some C) h = (Inr C, multiply4x4_4xN_loop A B C 0 h)"
    using lenB by (simp add: multiply4x4_4x1_def bind_p_def loop_4)
  have "is_Matrix4xN h B" and "is_Matrix4xN h C" and "col_count C = col_count B"
    using assms(2,3) by (simp_all add: is_Matrix4x1_def)
  then show "contents (multiply4x4_4xN_loop A B C 0 h) (arr C) =
           mat_prod (contents h (arr A)) (contents h (arr B))"
    using assms(1,4,5) by (intro multiply4x4_4xN_Some(2))
qed

text \<open>The kernels with the output omitted.\<close>

lemma is_Matrix4xN_fresh:
  assumes "0 < n"
  shows "is_Matrix4xN (h @ [replicate (4 * n) 0]) (fresh4xN h n)"
  using assms view_ok_fresh [of h "4 * n"]
  by (simp add: is_Matrix4xN_def is_Matrix_def fresh4xN_def arr_length_def)

lemma apart_fresh4xN:
  assumes "buffer w < length h"
  shows "apart w (arr (fresh4xN h n))"
  using assms by (simp add: fresh4xN_def apart_fresh)

lemma multiply4x4_4xN_None:
  assumes "is_Matrix4x4 h A" and "is_Matrix4xN h B"
  defines "h0 \<equiv> h @ [replicate (4 * col_count B) 0]"
  defines "F \<equiv> fresh4xN h (col_count B)"
  shows "multiply4x4_4xN A B None h = (Inr F, multiply4x4_4xN_loop A B F 0 h0)"
    and "contents (multiply4x4_4xN_loop A B F 0 h0) (arr F) =
           mat_prod (contents h (arr A)) (contents h (arr B))"
proof -
  have n: "0 < col_count B"
    using assms(2) by (simp add: is_Matrix4xN_def is_Matrix_def)
  have bA: "buffer (arr A) < length h" and bB: "buffer (arr B) < length h"
    using assms(1,2) by (simp_all add: is_Matrix_buffer)
  have new: "new_Matrix4xN (real (cols B)) None h = (Inr F, h0)"
    using n by (simp add: new_Matrix4xN_None cols_def F_def h0_def fresh4xN_def)
  have F: "is_Matrix4xN h0 F"
    using n by (simp add: F_def h0_def is_Matrix4xN_fresh)
  have A0: "is_Matrix4x4 h0 A" and B0: "is_Matrix4xN h0 B"
    using assms(1,2) by (simp_all add: h0_def is_Matrix_append)
  have AF: "apart (arr A) (arr F)" and BF: "apart (arr B) (arr F)"
    using bA bB by (simp_all add: F_def apart_fresh4xN)
  have cc: "col_count F = col_count B"
    by (simp add: F_def fresh4xN_def)
  have "multiply4x4_4xN A B None h = multiply4x4_4xN A B (Some F) h0"
    using new by (simp add: multiply4x4_4xN_def bind_p_def)
  also have "\<dots> = (Inr F, multiply4x4_4xN_loop A B F 0 h0)"
    using A0 B0 F cc AF BF by (intro multiply4x4_4xN_Some(1)) simp_all
  finally show "multiply4x4_4xN A B None h = (Inr F, multiply4x4_4xN_loop A B F 0 h0)" .
  have "contents (multiply4x4_4xN_loop A B F 0 h0) (arr F) =
           mat_prod (contents h0 (arr A)) (contents h0 (arr B))"
    using A0 B0 F cc AF BF by (intro multiply4x4_4xN_Some(2)) simp_all
  then show "contents (multiply4x4_4xN_loop A B F 0 h0) (arr F) =
           mat_prod (contents h (arr A)) (contents h (arr B))"
    using bA bB by (simp add: h0_def contents_append)
qed

lemma multiply4x4_4x4_None:
  assumes "is_Matrix4x4 h A" and "is_Matrix4x4 h B"
  defines "h0 \<equiv> h @ [replicate 16 0]"
  defines "F \<equiv> fresh4xN h 4"
  shows "multiply4x4_4x4 A B None h = (Inr F, multiply4x4_4xN_loop A B F 0 h0)"
    and "contents (multiply4x4_4xN_loop A B F 0 h0) (arr F) =
           mat_prod (contents h (arr A)) (contents h (arr B))"
proof -
  have B: "is_Matrix4xN h B" and cB: "col_count B = 4"
    using assms(2) by (simp_all add: is_Matrix4x4_def)
  have lenB: "arr_length (arr B) = 16"
    using assms(2) by (simp add: is_Matrix4x4_def is_Matrix4xN_def is_Matrix_def)
  have bA: "buffer (arr A) < length h"
    using assms(1) by (simp add: is_Matrix_buffer)
  have nsv: "\<not> same_view (arr A) (arr F)"
    using bA by (auto simp add: same_view_def F_def fresh4xN_def)
  have "multiply4x4_4x4 A B None h = (Inr F, multiply4x4_4xN_loop A B F 0 h0)"
    using nsv lenB
    by (simp add: multiply4x4_4x4_def bind_p_def new_Matrix4x4_None loop_16 F_def h0_def fresh4xN_def)
  then show "multiply4x4_4x4 A B None h = (Inr F, multiply4x4_4xN_loop A B F 0 h0)" .
  show "contents (multiply4x4_4xN_loop A B F 0 h0) (arr F) =
           mat_prod (contents h (arr A)) (contents h (arr B))"
    using multiply4x4_4xN_None(2) [OF assms(1) B] cB by (simp add: F_def h0_def)
qed

lemma is_Matrix4xN_same_arr:
  assumes "is_Matrix4xN h B" and "is_Matrix4xN h C" and "arr C = arr B"
  shows "col_count C = col_count B"
proof -
  have "arr_length (arr B) = 4 * col_count B" and "arr_length (arr C) = 4 * col_count C"
    using assms(1,2) by (simp_all add: is_Matrix4xN_def is_Matrix_def)
  then show ?thesis
    using assms(3) by simp
qed

section \<open>In-place use of the right operand\<close>

text \<open>
  C6, for operands that share no cell. Let \<open>A\<close> be a \<^verbatim>\<open>Matrix4x4\<close> and \<open>B\<close> a \<^verbatim>\<open>Matrix4xN\<close>, with
  \<open>A\<close> stored apart from \<open>B\<close>. The condition is needed: an output on the array of \<open>B\<close> that is
  also the view of \<open>A\<close> is the case the kernels refuse (C3), and the last section runs both
  calls with \<open>B\<close> the matrix \<open>A\<close> itself. Calling
  \<^verbatim>\<open>multiply4x4_4xN\<close> with an output \<open>C\<close> built on the array of \<open>B\<close> returns \<open>C\<close> and leaves in
  that array exactly the elements that the call with the output omitted leaves in the fresh
  matrix it returns: both hold the product of \<open>A\<close> and \<open>B\<close> as they were before the call.
  When \<open>B\<close> and \<open>C\<close> are \<^verbatim>\<open>Matrix4x4\<close> the same holds of \<^verbatim>\<open>multiply4x4_4x4\<close>.
\<close>

theorem multiply_into_B_equals_fresh_output:
  assumes "is_Matrix4x4 h A" and "is_Matrix4xN h B" and "is_Matrix4xN h C"
    and "arr C = arr B" and "apart (arr A) (arr B)"
  shows "(\<exists>h1 h2 F.
            multiply4x4_4xN A B (Some C) h = (Inr C, h1) \<and>
            multiply4x4_4xN A B None h = (Inr F, h2) \<and>
            contents h1 (arr B) = contents h2 (arr F) \<and>
            contents h1 (arr B) = mat_prod (contents h (arr A)) (contents h (arr B))) \<and>
         (is_Matrix4x4 h B \<and> is_Matrix4x4 h C \<longrightarrow>
          (\<exists>h1 h2 F.
            multiply4x4_4x4 A B (Some C) h = (Inr C, h1) \<and>
            multiply4x4_4x4 A B None h = (Inr F, h2) \<and>
            contents h1 (arr B) = contents h2 (arr F) \<and>
            contents h1 (arr B) = mat_prod (contents h (arr A)) (contents h (arr B))))"
proof (intro conjI impI)
  have cc: "col_count C = col_count B"
    using assms(2,3,4) by (rule is_Matrix4xN_same_arr)
  have AC: "apart (arr A) (arr C)" and BC: "arr B = arr C \<or> apart (arr B) (arr C)"
    using assms(4,5) by simp_all
  note in_place = multiply4x4_4xN_Some [OF assms(1,2,3) cc AC BC]
  note fresh = multiply4x4_4xN_None [OF assms(1,2)]
  show "\<exists>h1 h2 F.
            multiply4x4_4xN A B (Some C) h = (Inr C, h1) \<and>
            multiply4x4_4xN A B None h = (Inr F, h2) \<and>
            contents h1 (arr B) = contents h2 (arr F) \<and>
            contents h1 (arr B) = mat_prod (contents h (arr A)) (contents h (arr B))"
  proof (intro exI conjI)
    show "multiply4x4_4xN A B (Some C) h = (Inr C, multiply4x4_4xN_loop A B C 0 h)"
      by (rule in_place(1))
    show "multiply4x4_4xN A B None h =
            (Inr (fresh4xN h (col_count B)),
             multiply4x4_4xN_loop A B (fresh4xN h (col_count B)) 0 (h @ [replicate (4 * col_count B) 0]))"
      by (rule fresh(1))
    show e: "contents (multiply4x4_4xN_loop A B C 0 h) (arr B) =
            mat_prod (contents h (arr A)) (contents h (arr B))"
      using in_place(2) assms(4) by simp
    show "contents (multiply4x4_4xN_loop A B C 0 h) (arr B) =
            contents (multiply4x4_4xN_loop A B (fresh4xN h (col_count B)) 0
                        (h @ [replicate (4 * col_count B) 0])) (arr (fresh4xN h (col_count B)))"
      by (simp only: e fresh(2))
  qed
next
  assume sq: "is_Matrix4x4 h B \<and> is_Matrix4x4 h C"
  have AC: "apart (arr A) (arr C)" and BC: "arr B = arr C \<or> apart (arr B) (arr C)"
    using assms(4,5) by simp_all
  from sq have B4: "is_Matrix4x4 h B" and C4: "is_Matrix4x4 h C" by simp_all
  note in_place = multiply4x4_4x4_Some [OF assms(1) B4 C4 AC BC]
  note fresh = multiply4x4_4x4_None [OF assms(1) B4]
  show "\<exists>h1 h2 F.
            multiply4x4_4x4 A B (Some C) h = (Inr C, h1) \<and>
            multiply4x4_4x4 A B None h = (Inr F, h2) \<and>
            contents h1 (arr B) = contents h2 (arr F) \<and>
            contents h1 (arr B) = mat_prod (contents h (arr A)) (contents h (arr B))"
  proof (intro exI conjI)
    show "multiply4x4_4x4 A B (Some C) h = (Inr C, multiply4x4_4xN_loop A B C 0 h)"
      by (rule in_place(1))
    show "multiply4x4_4x4 A B None h =
            (Inr (fresh4xN h 4), multiply4x4_4xN_loop A B (fresh4xN h 4) 0 (h @ [replicate 16 0]))"
      by (rule fresh(1))
    show e: "contents (multiply4x4_4xN_loop A B C 0 h) (arr B) =
            mat_prod (contents h (arr A)) (contents h (arr B))"
      using in_place(2) assms(4) by simp
    show "contents (multiply4x4_4xN_loop A B C 0 h) (arr B) =
            contents (multiply4x4_4xN_loop A B (fresh4xN h 4) 0 (h @ [replicate 16 0]))
              (arr (fresh4xN h 4))"
      by (simp only: e fresh(2))
  qed
qed

lemma example_matrices:
  "is_Matrix4x4 heap_two (matrix_on 0 4)" "is_Matrix4x4 heap_two (matrix_on 1 4)"
  "is_Matrix4xN heap_two (matrix_on 0 4)" "is_Matrix4xN heap_two (matrix_on 1 4)"
  "apart (arr (matrix_on 0 4)) (arr (matrix_on 1 4))"
  by (simp_all add: is_Matrix4x4_def is_Matrix4xN_def is_Matrix_def view_ok_def arr_length_def
      cell_def matrix_on_def heap_two_def apart_def)

theorem multiply_into_B_equals_fresh_output_witness:
  "is_Matrix4x4 heap_two (matrix_on 0 4) \<and> is_Matrix4xN heap_two (matrix_on 1 4) \<and>
   arr (matrix_on 1 4) = arr (matrix_on 1 4) \<and>
   apart (arr (matrix_on 0 4)) (arr (matrix_on 1 4)) \<and>
   is_Matrix4x4 heap_two (matrix_on 1 4) \<and>
   (\<exists>h1 h2 F.
      multiply4x4_4xN (matrix_on 0 4) (matrix_on 1 4) (Some (matrix_on 1 4)) heap_two = (Inr (matrix_on 1 4), h1) \<and>
      multiply4x4_4xN (matrix_on 0 4) (matrix_on 1 4) None heap_two = (Inr F, h2) \<and>
      contents h1 (arr (matrix_on 1 4)) = contents h2 (arr F)) \<and>
   (\<exists>h1 h2 F.
      multiply4x4_4x4 (matrix_on 0 4) (matrix_on 1 4) (Some (matrix_on 1 4)) heap_two = (Inr (matrix_on 1 4), h1) \<and>
      multiply4x4_4x4 (matrix_on 0 4) (matrix_on 1 4) None heap_two = (Inr F, h2) \<and>
      contents h1 (arr (matrix_on 1 4)) = contents h2 (arr F))"
  using multiply_into_B_equals_fresh_output
    [of heap_two "matrix_on 0 4" "matrix_on 1 4" "matrix_on 1 4"] example_matrices
  by blast

section \<open>The aliasing error of the kernels\<close>


lemma fresh_not_same_view:
  assumes "buffer v < length h"
  shows "\<not> same_view v \<lparr>buffer = length h, byteOffset = o', byteLength = l'\<rparr>"
  using assms by (simp add: same_view_def)

lemma same_view_iff:
  "same_view v w \<longleftrightarrow>
     buffer v = buffer w \<and> byteOffset v = byteOffset w \<and> byteLength v = byteLength w"
  by (simp add: same_view_def)

lemma multiply4x4_4x4_throws:
  assumes "buffer (arr A) < length h"
  shows "fst (multiply4x4_4x4 A B Copt h) = Inl CannotModifyAInPlace \<longleftrightarrow>
           (\<exists>C. Copt = Some C \<and> same_view (arr A) (arr C))"
    and "fst (multiply4x4_4x4 A B Copt h) = Inl e \<longrightarrow> snd (multiply4x4_4x4 A B Copt h) = h"
  using assms
  by (cases Copt; simp add: multiply4x4_4x4_def bind_p_def new_Matrix4x4_None fresh_not_same_view)+

lemma multiply4x4_4x1_throws:
  assumes "buffer (arr A) < length h"
  shows "fst (multiply4x4_4x1 A B Copt h) = Inl CannotModifyAInPlace \<longleftrightarrow>
           (\<exists>C. Copt = Some C \<and> same_view (arr A) (arr C))"
    and "fst (multiply4x4_4x1 A B Copt h) = Inl e \<longrightarrow> snd (multiply4x4_4x1 A B Copt h) = h"
  using assms
  by (cases Copt; simp add: multiply4x4_4x1_def bind_p_def new_Matrix4x1_None fresh_not_same_view)+

lemma multiply4x4_4xN_throws:
  assumes "buffer (arr A) < length h"
  shows "fst (multiply4x4_4xN A B Copt h) = Inl CannotModifyAInPlace \<longleftrightarrow>
           (\<exists>C. Copt = Some C \<and> same_view (arr A) (arr C))"
    and "fst (multiply4x4_4xN A B Copt h) = Inl e \<longrightarrow> snd (multiply4x4_4xN A B Copt h) = h"
proof -
  have none: "fst (multiply4x4_4xN A B None h) \<noteq> Inl CannotModifyAInPlace"
  proof (cases "cols B = 0")
    case True
    then show ?thesis
      using new_Matrix4xN_zero [of h] by (simp add: multiply4x4_4xN_def bind_p_def)
  next
    case False
    then show ?thesis
      using assms new_Matrix4xN_None [of "cols B" h]
      by (simp add: multiply4x4_4xN_def bind_p_def fresh_not_same_view)
  qed
  show "fst (multiply4x4_4xN A B Copt h) = Inl CannotModifyAInPlace \<longleftrightarrow>
           (\<exists>C. Copt = Some C \<and> same_view (arr A) (arr C))"
    using none by (cases Copt) (simp_all add: multiply4x4_4xN_def bind_p_def)
  show "fst (multiply4x4_4xN A B Copt h) = Inl e \<longrightarrow> snd (multiply4x4_4xN A B Copt h) = h"
  proof (cases Copt)
    case None
    show ?thesis
    proof (cases "cols B = 0")
      case True
      then show ?thesis
        using None new_Matrix4xN_zero [of h] by (simp add: multiply4x4_4xN_def bind_p_def)
    next
      case False
      then show ?thesis
        using None assms new_Matrix4xN_None [of "cols B" h]
        by (simp add: multiply4x4_4xN_def bind_p_def fresh_not_same_view cols_def fresh4xN_def)
    qed
  next
    case (Some C)
    then show ?thesis
      by (simp add: multiply4x4_4xN_def bind_p_def)
  qed
qed

text \<open>
  C3. For a left operand \<open>A\<close> allocated in the heap, each of \<^verbatim>\<open>multiply4x4_4x4\<close>,
  \<^verbatim>\<open>multiply4x4_4xN\<close> and \<^verbatim>\<open>multiply4x4_4x1\<close> throws "Cannot modify Matrix A in place, only B
  can be modified in place" if and only if an output is passed whose array has the buffer,
  the byte offset and the byte length of the array of \<open>A\<close>; and whenever one of them throws,
  that error or another, the heap is the one before the call, so no cell of any matrix has
  changed.
\<close>

theorem fast_kernels_throw_iff_output_is_view_of_A:
  assumes "buffer (arr A) < length h"
  shows "(fst (multiply4x4_4x4 A B Copt h) = Inl CannotModifyAInPlace \<longleftrightarrow>
            (\<exists>C. Copt = Some C \<and> buffer (arr A) = buffer (arr C) \<and>
                 byteOffset (arr A) = byteOffset (arr C) \<and> byteLength (arr A) = byteLength (arr C))) \<and>
         (\<forall>e. fst (multiply4x4_4x4 A B Copt h) = Inl e \<longrightarrow>
            snd (multiply4x4_4x4 A B Copt h) = h) \<and>
         (fst (multiply4x4_4xN A B Copt h) = Inl CannotModifyAInPlace \<longleftrightarrow>
            (\<exists>C. Copt = Some C \<and> buffer (arr A) = buffer (arr C) \<and>
                 byteOffset (arr A) = byteOffset (arr C) \<and> byteLength (arr A) = byteLength (arr C))) \<and>
         (\<forall>e. fst (multiply4x4_4xN A B Copt h) = Inl e \<longrightarrow>
            snd (multiply4x4_4xN A B Copt h) = h) \<and>
         (fst (multiply4x4_4x1 A B Copt h) = Inl CannotModifyAInPlace \<longleftrightarrow>
            (\<exists>C. Copt = Some C \<and> buffer (arr A) = buffer (arr C) \<and>
                 byteOffset (arr A) = byteOffset (arr C) \<and> byteLength (arr A) = byteLength (arr C))) \<and>
         (\<forall>e. fst (multiply4x4_4x1 A B Copt h) = Inl e \<longrightarrow>
            snd (multiply4x4_4x1 A B Copt h) = h)"
  using multiply4x4_4x4_throws [OF assms, of B Copt] multiply4x4_4xN_throws [OF assms, of B Copt]
    multiply4x4_4x1_throws [OF assms, of B Copt]
  by (simp only: same_view_iff) blast

theorem fast_kernels_throw_iff_output_is_view_of_A_witness:
  "buffer (arr (matrix_on 0 4)) < length heap_two \<and>
   fst (multiply4x4_4x4 (matrix_on 0 4) (matrix_on 1 4) (Some (matrix_on 0 4)) heap_two)
     = Inl CannotModifyAInPlace \<and>
   snd (multiply4x4_4x4 (matrix_on 0 4) (matrix_on 1 4) (Some (matrix_on 0 4)) heap_two) = heap_two \<and>
   fst (multiply4x4_4xN (matrix_on 0 4) (matrix_on 1 4) (Some (matrix_on 0 4)) heap_two)
     = Inl CannotModifyAInPlace \<and>
   fst (multiply4x4_4x1 (matrix_on 0 4) (matrix_on 1 4) (Some (matrix_on 1 4)) heap_two)
     \<noteq> Inl CannotModifyAInPlace"
  using fast_kernels_throw_iff_output_is_view_of_A
    [of "matrix_on 0 4" heap_two "matrix_on 1 4" "Some (matrix_on 0 4)"]
    fast_kernels_throw_iff_output_is_view_of_A
    [of "matrix_on 0 4" heap_two "matrix_on 1 4" "Some (matrix_on 1 4)"]
  by (simp add: matrix_on_def heap_two_def)

section \<open>Folds of stores\<close>

lemma view_ok_fold_pairs [simp]:
  "view_ok (fold (\<lambda>(i, j) h'. wr h' dst i (g h' j)) ps h) w = view_ok h w"
  by (induction ps arbitrary: h) (simp_all add: case_prod_beta)

lemma length_fold_pairs [simp]:
  "length (fold (\<lambda>(i, j) h'. wr h' dst i (g h' j)) ps h) = length h"
  by (induction ps arbitrary: h) (simp_all add: case_prod_beta)

lemma rd_fold_pairs_apart:
  assumes "apart w dst"
  shows "rd (fold (\<lambda>(i, j) h'. wr h' dst i (g h' j)) ps h) w k = rd h w k"
  using assms by (induction ps arbitrary: h) (simp_all add: case_prod_beta rd_wr_apart)

lemma rd_fold_pairs:
  assumes "view_ok h dst" and "apart src dst"
    and "\<forall>p \<in> set ps. fst p < arr_length dst" and "distinct (map fst ps)"
  shows "rd (fold (\<lambda>(i, j) h'. wr h' dst i (rd h' src j)) ps h) dst k =
           (case map_of ps k of Some j \<Rightarrow> rd h src j | None \<Rightarrow> rd h dst k)"
  using assms
proof (induction ps arbitrary: h)
  case Nil
  then show ?case by simp
next
  case (Cons p ps)
  obtain i j where p: "p = (i, j)" by (cases p)
  define h1 where "h1 = wr h dst i (rd h src j)"
  have i: "i < arr_length dst" and notin: "i \<notin> fst ` set ps"
    using Cons.prems(3,4) p by simp_all
  have IH: "rd (fold (\<lambda>(i, j) h'. wr h' dst i (rd h' src j)) ps h1) dst k =
           (case map_of ps k of Some j \<Rightarrow> rd h1 src j | None \<Rightarrow> rd h1 dst k)"
    using Cons.prems by (intro Cons.IH) (simp_all add: h1_def)
  have src: "rd h1 src j' = rd h src j'" for j'
    using Cons.prems(2) by (simp add: h1_def rd_wr_apart)
  have dst: "rd h1 dst k' = (if k' = i then rd h src j else rd h dst k')" for k'
    using Cons.prems(1) i by (simp add: h1_def rd_wr_same_view)
  have none: "map_of ps i = None"
    using notin by (simp add: map_of_eq_None_iff)
  have step: "rd (fold (\<lambda>(i, j) h'. wr h' dst i (rd h' src j)) (p # ps) h) dst k =
           (case map_of ps k of Some j \<Rightarrow> rd h1 src j | None \<Rightarrow> rd h1 dst k)"
    using IH by (simp add: p h1_def)
  show ?case
  proof (cases "k = i")
    case True
    with none have "map_of ps k = None" by simp
    then show ?thesis
      using True by (subst step) (simp add: dst p)
  next
    case False
    then show ?thesis
      by (subst step) (simp add: dst src p split: option.split)
  qed
qed

text \<open>Copying cell by cell is the case of the pairs \<open>(i, i)\<close>.\<close>

lemma fold_copy_as_pairs:
  "fold (\<lambda>i h'. wr h' dst i (rd h' src i)) is h =
     fold (\<lambda>(i, j) h'. wr h' dst i (rd h' src j)) (map (\<lambda>i. (i, i)) is) h"
  by (simp add: fold_map comp_def)

lemma map_of_diagonal: "map_of (map (\<lambda>i. (i, i)) [0..<n]) k = (if k < n then Some k else None)"
  by (simp add: map_of_map_restrict restrict_map_def)

lemma rd_fold_copy:
  assumes "view_ok h dst" and "apart src dst" and "n \<le> arr_length dst"
  shows "rd (fold (\<lambda>i h'. wr h' dst i (rd h' src i)) [0..<n] h) dst k =
           (if k < n then rd h src k else rd h dst k)"
proof -
  have "\<forall>p \<in> set (map (\<lambda>i. (i, i)) [0..<n]). fst p < arr_length dst"
    using assms(3) by auto
  moreover have "distinct (map fst (map (\<lambda>i. (i, i)) [0..<n]))"
    by (simp add: comp_def)
  ultimately show ?thesis
    using assms(1,2)
    by (simp only: fold_copy_as_pairs rd_fold_pairs map_of_diagonal) simp
qed

lemma rd_fold_copy_apart:
  assumes "apart w dst"
  shows "rd (fold (\<lambda>i h'. wr h' dst i (rd h' src i)) is h) w k = rd h w k"
  using assms by (simp only: fold_copy_as_pairs rd_fold_pairs_apart)

lemma view_ok_fold_copy [simp]:
  "view_ok (fold (\<lambda>i h'. wr h' dst i (rd h' src i)) is h) w = view_ok h w"
  by (simp only: fold_copy_as_pairs view_ok_fold_pairs)

lemma length_fold_copy [simp]:
  "length (fold (\<lambda>i h'. wr h' dst i (rd h' src i)) is h) = length h"
  by (simp only: fold_copy_as_pairs length_fold_pairs)

section \<open>Transposition\<close>

lemma below_16:
  assumes "k < (16::nat)"
  shows "k \<in> {0, 1, 2, 3, 4, 5, 6, 7, 8, 9, 10, 11, 12, 13, 14, 15}"
  using assms by simp arith

lemma map_of_transpose_pairs:
  assumes "k < 16"
  shows "map_of transpose_pairs k = Some (4 * (k mod 4) + k div 4)"
  using below_16 [OF assms] by (auto simp add: transpose_pairs_def)

lemma transpose_index_back:
  assumes "k < (16::nat)"
  shows "4 * (k mod 4) + k div 4 < 16" and "4 * ((4 * (k mod 4) + k div 4) mod 4) + (4 * (k mod 4) + k div 4) div 4 = k"
  using below_16 [OF assms] by auto

lemma mat_transpose_twice:
  assumes "length xs = 16"
  shows "mat_transpose (mat_transpose xs) = xs"
proof (rule nth_equalityI)
  show "length (mat_transpose (mat_transpose xs)) = length xs"
    using assms by (simp add: mat_transpose_def)
next
  fix k
  assume "k < length (mat_transpose (mat_transpose xs))"
  then have k: "k < 16" by (simp add: mat_transpose_def)
  then show "mat_transpose (mat_transpose xs) ! k = xs ! k"
    using transpose_index_back [OF k] by (simp add: mat_transpose_def)
qed

lemma length_mat_transpose [simp]: "length (mat_transpose xs) = 16"
  by (simp add: mat_transpose_def)

lemma length_contents [simp]: "length (contents h v) = arr_length v"
  by (simp add: contents_def)

lemma contents_transpose_elements:
  assumes "view_ok h dst" and "apart src dst" and "arr_length dst = 16" and "arr_length src = 16"
  shows "contents (transpose_elements src dst h) dst = mat_transpose (contents h src)"
proof (rule nth_equalityI)
  show "length (contents (transpose_elements src dst h) dst) = length (mat_transpose (contents h src))"
    using assms(3) by simp
next
  fix k
  assume "k < length (contents (transpose_elements src dst h) dst)"
  then have k: "k < 16" using assms(3) by simp
  have "\<forall>p \<in> set transpose_pairs. fst p < arr_length dst"
    using assms(3) by (simp add: transpose_pairs_def)
  moreover have "distinct (map fst transpose_pairs)"
    by (simp add: transpose_pairs_def)
  ultimately have "rd (transpose_elements src dst h) dst k =
      (case map_of transpose_pairs k of Some j \<Rightarrow> rd h src j | None \<Rightarrow> rd h dst k)"
    unfolding transpose_elements_def using assms(1,2) by (intro rd_fold_pairs)
  then show "contents (transpose_elements src dst h) dst ! k = mat_transpose (contents h src) ! k"
    using k assms(3,4) transpose_index_back(1) [OF k]
    by (simp add: contents_def mat_transpose_def map_of_transpose_pairs)
qed

lemma contents_transpose_elements_apart:
  assumes "apart w dst"
  shows "contents (transpose_elements src dst h) w = contents h w"
  using assms by (simp add: contents_def transpose_elements_def rd_fold_pairs_apart)

lemma view_ok_transpose_elements [simp]:
  "view_ok (transpose_elements src dst h) w = view_ok h w"
  by (simp add: transpose_elements_def)

lemma is_Matrix4x4_transfer:
  assumes "is_Matrix4x4 h M" and "\<forall>w. view_ok h w \<longrightarrow> view_ok h' w"
  shows "is_Matrix4x4 h' M"
  using assms by (simp add: is_Matrix4x4_def is_Matrix4xN_def is_Matrix_def)

lemma is_Matrix4x4_D:
  assumes "is_Matrix4x4 h M"
  shows "view_ok h (arr M)" and "arr_length (arr M) = 16" and "row_count M = 4" and "col_count M = 4"
    and "buffer (arr M) < length h"
proof -
  show "view_ok h (arr M)" and "arr_length (arr M) = 16" and "row_count M = 4" and "col_count M = 4"
    using assms by (simp_all add: is_Matrix4x4_def is_Matrix4xN_def is_Matrix_def)
  then show "buffer (arr M) < length h"
    by (simp add: view_ok_def)
qed

lemma contents_cong:
  assumes "arr_length v = arr_length w" and "\<And>k. k < arr_length v \<Longrightarrow> rd h' v k = rd h w k"
  shows "contents h' v = contents h w"
  using assms by (simp add: contents_def)

lemma set_all_Floats:
  assumes "view_ok h (arr M)" and "arr_length (arr M) = row_count M * col_count M"
    and "arr_length src = row_count M * col_count M" and "apart src (arr M)"
  defines "h' \<equiv> fold (\<lambda>i h'. wr h' (arr M) i (rd h' src i)) [0..<arr_length src] h"
  shows "set_all M (Floats src) h = (Inr (), h')"
    and "contents h' (arr M) = contents h src"
    and "\<And>w. view_ok h' w = view_ok h w"
    and "\<And>w. apart w (arr M) \<Longrightarrow> contents h' w = contents h w"
proof -
  show "set_all M (Floats src) h = (Inr (), h')"
    using assms(3) by (simp add: set_all_def h'_def)
  show "contents h' (arr M) = contents h src"
  proof (rule contents_cong)
    show "arr_length (arr M) = arr_length src"
      using assms(2,3) by simp
  next
    fix k
    assume "k < arr_length (arr M)"
    then show "rd h' (arr M) k = rd h src k"
      unfolding h'_def using assms(1,2,3,4) by (subst rd_fold_copy) simp_all
  qed
  show "\<And>w. view_ok h' w = view_ok h w"
    by (simp add: h'_def)
  show "\<And>w. apart w (arr M) \<Longrightarrow> contents h' w = contents h w"
    by (simp add: h'_def contents_def rd_fold_copy_apart)
qed

lemma transpose4x4_in_place_correct:
  assumes "is_Matrix4x4 h A"
  shows "\<exists>h'. transpose4x4_in_place A h = (Inr (), h') \<and>
              contents h' (arr A) = mat_transpose (contents h (arr A)) \<and>
              (\<forall>w. view_ok h w \<longrightarrow> view_ok h' w)"
proof -
  note A = is_Matrix4x4_D [OF assms]
  define S where "S = fresh4xN h 4"
  define h0 where "h0 = h @ [replicate 16 (0::real)]"
  define h1 where "h1 = transpose_elements (arr A) (arr S) h0"
  define h2 where "h2 = fold (\<lambda>i h'. wr h' (arr A) i (rd h' (arr S) i)) [0..<arr_length (arr S)] h1"
  have new: "new_Matrix4x4 None h = (Inr S, h0)"
    by (simp add: new_Matrix4x4_None S_def h0_def fresh4xN_def)
  have S: "is_Matrix4xN h0 S" and lenS: "arr_length (arr S) = 16"
    using is_Matrix4xN_fresh [of 4 h] by (simp_all add: S_def h0_def fresh4xN_def arr_length_def)
  then have okS: "view_ok h0 (arr S)"
    by (simp add: is_Matrix4xN_def is_Matrix_def)
  have AS: "apart (arr A) (arr S)"
    using A(5) by (simp add: S_def apart_fresh4xN)
  have okA0: "view_ok h0 (arr A)"
    using A(1) by (simp add: h0_def view_ok_append)
  have c1: "contents h1 (arr S) = mat_transpose (contents h0 (arr A))"
    unfolding h1_def using okS AS lenS A(2) by (rule contents_transpose_elements)
  have okA1: "view_ok h1 (arr A)"
    using okA0 by (simp add: h1_def)
  have lenA: "arr_length (arr A) = row_count A * col_count A"
    and lenS': "arr_length (arr S) = row_count A * col_count A"
    using A lenS by simp_all
  note sa = set_all_Floats [OF okA1 lenA lenS' apart_sym [OF AS], folded h2_def]
  have run: "transpose4x4_in_place A h = (Inr (), h2)"
    using new sa(1) by (simp add: transpose4x4_in_place_def bind_p_def modify_p_def h1_def)
  have "contents h2 (arr A) = mat_transpose (contents h (arr A))"
    using sa(2) c1 A(5) by (simp add: h0_def contents_append)
  moreover have "\<forall>w. view_ok h w \<longrightarrow> view_ok h2 w"
    using sa(3) by (simp add: h1_def h0_def view_ok_append)
  ultimately show ?thesis
    using run by blast
qed

lemma transpose4x4_fresh_correct:
  assumes "is_Matrix4x4 h A" and "is_Matrix4x4 h C" and "apart (arr A) (arr C)"
  shows "\<exists>h'. transpose4x4 A (Some C) h = (Inr (), h') \<and>
              contents h' (arr C) = mat_transpose (contents h (arr A)) \<and>
              (\<forall>w. view_ok h w \<longrightarrow> view_ok h' w)"
proof -
  note A = is_Matrix4x4_D [OF assms(1)] and C = is_Matrix4x4_D [OF assms(2)]
  have "\<not> same_view (arr A) (arr C)"
    using assms(3) A(2) by (simp add: apart_not_same_view)
  then have "transpose4x4 A (Some C) h = (Inr (), transpose_elements (arr A) (arr C) h)"
    by (simp add: transpose4x4_def modify_p_def)
  moreover have "contents (transpose_elements (arr A) (arr C) h) (arr C) =
      mat_transpose (contents h (arr A))"
    using C(1) assms(3) C(2) A(2) by (rule contents_transpose_elements)
  ultimately show ?thesis
    by simp
qed

lemma transpose4x4_aliased_is_in_place:
  assumes "same_view (arr A) (arr C)"
  shows "transpose4x4 A (Some C) = transpose4x4_in_place A"
    and "transpose4x4 A None = transpose4x4_in_place A"
  using assms by (simp_all add: transpose4x4_def)

text \<open>
  C7. For a \<^verbatim>\<open>Matrix4x4\<close> \<open>A\<close>, two calls of \<^verbatim>\<open>transpose4x4\<close> restore the elements of \<open>A\<close>
  exactly: in place, with the output omitted; in place, with an output that is the same
  view as \<open>A\<close>; and with distinct outputs, \<open>A\<close> into \<open>C\<close> and then \<open>C\<close> into \<open>D\<close>, where each
  output is stored apart from the matrix transposed into it. One call leaves in \<open>A\<close>, when
  in place, the elements it leaves in \<open>C\<close> when the output is \<open>C\<close>.
\<close>

theorem transpose4x4_round_trip:
  assumes "is_Matrix4x4 h A" and "is_Matrix4x4 h C" and "is_Matrix4x4 h D"
    and "apart (arr A) (arr C)" and "apart (arr C) (arr D)"
    and "same_view (arr A) (arr A')"
  shows "(\<exists>h1 h2. transpose4x4 A None h = (Inr (), h1) \<and> transpose4x4 A None h1 = (Inr (), h2) \<and>
                  contents h2 (arr A) = contents h (arr A)) \<and>
         (\<exists>h1 h2. transpose4x4 A (Some A') h = (Inr (), h1) \<and> transpose4x4 A (Some A') h1 = (Inr (), h2) \<and>
                  contents h2 (arr A) = contents h (arr A)) \<and>
         (\<exists>h1 h2. transpose4x4 A (Some C) h = (Inr (), h1) \<and> transpose4x4 C (Some D) h1 = (Inr (), h2) \<and>
                  contents h2 (arr D) = contents h (arr A)) \<and>
         (\<exists>h1 h2. transpose4x4 A None h = (Inr (), h1) \<and> transpose4x4 A (Some C) h = (Inr (), h2) \<and>
                  contents h1 (arr A) = contents h2 (arr C))"
proof -
  have len: "length (contents h (arr A)) = 16"
    using is_Matrix4x4_D(2) [OF assms(1)] by simp
  obtain h1 where t1: "transpose4x4_in_place A h = (Inr (), h1)"
    and c1: "contents h1 (arr A) = mat_transpose (contents h (arr A))"
    and ok1: "\<forall>w. view_ok h w \<longrightarrow> view_ok h1 w"
    using transpose4x4_in_place_correct [OF assms(1)] by blast
  have A1: "is_Matrix4x4 h1 A"
    using assms(1) ok1 by (rule is_Matrix4x4_transfer)
  obtain h2 where t2: "transpose4x4_in_place A h1 = (Inr (), h2)"
    and c2: "contents h2 (arr A) = mat_transpose (contents h1 (arr A))"
    using transpose4x4_in_place_correct [OF A1] by blast
  have restored: "contents h2 (arr A) = contents h (arr A)"
    using c1 c2 len by (simp add: mat_transpose_twice)
  obtain g1 where t3: "transpose4x4 A (Some C) h = (Inr (), g1)"
    and d1: "contents g1 (arr C) = mat_transpose (contents h (arr A))"
    and okg: "\<forall>w. view_ok h w \<longrightarrow> view_ok g1 w"
    using transpose4x4_fresh_correct [OF assms(1,2,4)] by blast
  have C1: "is_Matrix4x4 g1 C" and D1: "is_Matrix4x4 g1 D"
    using assms(2,3) okg by (auto intro: is_Matrix4x4_transfer)
  obtain g2 where t4: "transpose4x4 C (Some D) g1 = (Inr (), g2)"
    and d2: "contents g2 (arr D) = mat_transpose (contents g1 (arr C))"
    using transpose4x4_fresh_correct [OF C1 D1 assms(5)] by blast
  have restored': "contents g2 (arr D) = contents h (arr A)"
    using d1 d2 len by (simp add: mat_transpose_twice)
  have same: "contents h1 (arr A) = contents g1 (arr C)"
    using c1 d1 by simp
  note al = transpose4x4_aliased_is_in_place [OF assms(6)]
  show ?thesis
    using t1 t2 t3 t4 restored restored' same by (simp only: al) blast
qed

theorem transpose4x4_round_trip_witness:
  "is_Matrix4x4 heap_two (matrix_on 0 4) \<and> is_Matrix4x4 heap_two (matrix_on 1 4) \<and>
   apart (arr (matrix_on 0 4)) (arr (matrix_on 1 4)) \<and>
   apart (arr (matrix_on 1 4)) (arr (matrix_on 0 4)) \<and>
   same_view (arr (matrix_on 0 4)) (arr (matrix_on 0 4)) \<and>
   (\<exists>h1 h2. transpose4x4 (matrix_on 0 4) None heap_two = (Inr (), h1) \<and>
            transpose4x4 (matrix_on 0 4) None h1 = (Inr (), h2) \<and>
            contents h2 (arr (matrix_on 0 4)) = contents heap_two (arr (matrix_on 0 4))) \<and>
   (\<exists>h1 h2. transpose4x4 (matrix_on 0 4) (Some (matrix_on 1 4)) heap_two = (Inr (), h1) \<and>
            transpose4x4 (matrix_on 1 4) (Some (matrix_on 0 4)) h1 = (Inr (), h2) \<and>
            contents h2 (arr (matrix_on 0 4)) = contents heap_two (arr (matrix_on 0 4)))"
  using transpose4x4_round_trip
    [of heap_two "matrix_on 0 4" "matrix_on 1 4" "matrix_on 0 4" "matrix_on 0 4"]
    example_matrices apart_sym [OF example_matrices(5)]
  by (simp add: same_view_def)

section \<open>The rotation builders and the rotation of the camera\<close>

lemma view_ok_wr_from [simp]: "view_ok (wr_from h v i xs) w = view_ok h w"
  by (induction xs arbitrary: h i) simp_all

lemma length_wr_from [simp]: "length (wr_from h v i xs) = length h"
  by (induction xs arbitrary: h i) simp_all

lemma rd_wr_from_apart:
  assumes "apart w v"
  shows "rd (wr_from h v i xs) w k = rd h w k"
  using assms by (induction xs arbitrary: h i) (simp_all add: rd_wr_apart)

lemma rd_wr_from:
  assumes "view_ok h v" and "i + length xs \<le> arr_length v"
  shows "rd (wr_from h v i xs) v k =
           (if i \<le> k \<and> k < i + length xs then xs ! (k - i) else rd h v k)"
  using assms
proof (induction xs arbitrary: h i)
  case Nil
  then show ?case by simp
next
  case (Cons x xs)
  have "rd (wr_from (wr h v i x) v (Suc i) xs) v k =
           (if Suc i \<le> k \<and> k < Suc i + length xs then xs ! (k - Suc i) else rd (wr h v i x) v k)"
    using Cons.prems by (intro Cons.IH) simp_all
  moreover have "rd (wr h v i x) v k = (if k = i then x else rd h v k)"
    using Cons.prems by (simp add: rd_wr_same_view)
  ultimately show ?case
    by (auto simp add: nth_Cons')
qed

lemma contents_wr_from:
  assumes "view_ok h v" and "length xs = arr_length v"
  shows "contents (wr_from h v 0 xs) v = xs"
proof (rule nth_equalityI)
  show "length (contents (wr_from h v 0 xs) v) = length xs"
    using assms(2) by simp
next
  fix k
  assume "k < length (contents (wr_from h v 0 xs) v)"
  then have "k < length xs" using assms(2) by simp
  then show "contents (wr_from h v 0 xs) v ! k = xs ! k"
    using assms by (simp add: contents_def rd_wr_from)
qed

lemma contents_wr_from_apart:
  assumes "apart w v"
  shows "contents (wr_from h v i xs) w = contents h w"
  using assms by (simp add: contents_def rd_wr_from_apart)

lemma length_rot_elements [simp]:
  "length (rot_x_elements rad) = 16" "length (rot_y_elements rad) = 16"
  "length (rot_z_elements rad) = 16"
  by (simp_all add: rot_x_elements_def rot_y_elements_def rot_z_elements_def Let_def)

lemma stores_only_in_is_Matrix4x4:
  assumes "stores_only_in v h h'"
  shows "is_Matrix4x4 h' M = is_Matrix4x4 h M"
  using assms by (simp add: stores_only_in_def is_Matrix4x4_def is_Matrix4xN_def is_Matrix_def)

lemma stores_only_in_contents:
  assumes "stores_only_in v h h'" and "apart w v"
  shows "contents h' w = contents h w"
  using assms by (simp add: stores_only_in_def)

lemma get_rot_Some:
  assumes "is_Matrix4x4 h out"
  shows "\<exists>h'. get_rot_x rad (Some out) h = (Inr out, h') \<and>
              contents h' (arr out) = rot_x_elements rad \<and> stores_only_in (arr out) h h'"
    and "\<exists>h'. get_rot_y rad (Some out) h = (Inr out, h') \<and>
              contents h' (arr out) = rot_y_elements rad \<and> stores_only_in (arr out) h h'"
    and "\<exists>h'. get_rot_z rad (Some out) h = (Inr out, h') \<and>
              contents h' (arr out) = rot_z_elements rad \<and> stores_only_in (arr out) h h'"
  using is_Matrix4x4_D(1,2) [OF assms]
  by (simp_all add: get_rot_x_def get_rot_y_def get_rot_z_def bind_p_def modify_p_def return_p_def
      contents_wr_from contents_wr_from_apart stores_only_in_def)

lemma multiply4x4_4x4_into:
  assumes "is_Matrix4x4 h A" and "is_Matrix4x4 h B" and "is_Matrix4x4 h C"
    and "apart (arr A) (arr C)"
    and "arr B = arr C \<or> apart (arr B) (arr C)"
  shows "\<exists>h'. multiply4x4_4x4 A B (Some C) h = (Inr C, h') \<and>
              contents h' (arr C) = mat_prod (contents h (arr A)) (contents h (arr B)) \<and>
              stores_only_in (arr C) h h'"
  using multiply4x4_4x4_Some [OF assms]
  by (simp add: stores_only_in_def contents_loop_apart)

text \<open>
  C5. For a camera whose matrices \<open>swp\<close> and \<open>inv_rot\<close> are \<^verbatim>\<open>Matrix4x4\<close> stored apart from each
  other, as the constructor builds them, \<^verbatim>\<open>set_rot(x, yp, zpp)\<close> returns and leaves in
  \<open>inv_rot\<close> the product \<open>Rx(-x) \<cdot> (Ry(-yp) \<cdot> Rz(-zpp))\<close> of the matrices that \<^verbatim>\<open>get_rot_x\<close>,
  \<^verbatim>\<open>get_rot_y\<close> and \<^verbatim>\<open>get_rot_z\<close> store: \<open>Rz(-zpp)\<close> first, multiplied on the left by \<open>Ry(-yp)\<close>, then
  on the left by \<open>Rx(-x)\<close>.
\<close>

theorem set_rot_inv_rot:
  assumes "is_Matrix4x4 h (swp cam)" and "is_Matrix4x4 h (inv_rot cam)"
    and "apart (arr (swp cam)) (arr (inv_rot cam))"
  shows "\<exists>h'. set_rot cam x yp zpp h = (Inr (), h') \<and>
              contents h' (arr (inv_rot cam)) =
                mat_prod (rot_x_elements (- x))
                  (mat_prod (rot_y_elements (- yp)) (rot_z_elements (- zpp)))"
proof -
  let ?S = "swp cam" and ?R = "inv_rot cam"
  note SR = assms(3) and RS = apart_sym [OF assms(3)]
  obtain h1 where z: "get_rot_z (- zpp) (Some ?R) h = (Inr ?R, h1)"
    and cz: "contents h1 (arr ?R) = rot_z_elements (- zpp)"
    and f1: "stores_only_in (arr ?R) h h1"
    using get_rot_Some(3) [OF assms(2)] by blast
  have S1: "is_Matrix4x4 h1 ?S" and R1: "is_Matrix4x4 h1 ?R"
    using assms(1,2) by (simp_all add: stores_only_in_is_Matrix4x4 [OF f1])
  obtain h2 where y: "get_rot_y (- yp) (Some ?S) h1 = (Inr ?S, h2)"
    and cy: "contents h2 (arr ?S) = rot_y_elements (- yp)"
    and f2: "stores_only_in (arr ?S) h1 h2"
    using get_rot_Some(2) [OF S1] by blast
  have S2: "is_Matrix4x4 h2 ?S" and R2: "is_Matrix4x4 h2 ?R"
    using S1 R1 by (simp_all add: stores_only_in_is_Matrix4x4 [OF f2])
  have cz2: "contents h2 (arr ?R) = rot_z_elements (- zpp)"
    using stores_only_in_contents [OF f2 RS] cz by simp
  obtain h3 where m1: "multiply4x4_4x4 ?S ?R (Some ?R) h2 = (Inr ?R, h3)"
    and c3: "contents h3 (arr ?R) = mat_prod (contents h2 (arr ?S)) (contents h2 (arr ?R))"
    and f3: "stores_only_in (arr ?R) h2 h3"
    using multiply4x4_4x4_into [OF S2 R2 R2 SR] by blast
  have S3: "is_Matrix4x4 h3 ?S" and R3: "is_Matrix4x4 h3 ?R"
    using S2 R2 by (simp_all add: stores_only_in_is_Matrix4x4 [OF f3])
  obtain h4 where x: "get_rot_x (- x) (Some ?S) h3 = (Inr ?S, h4)"
    and cx: "contents h4 (arr ?S) = rot_x_elements (- x)"
    and f4: "stores_only_in (arr ?S) h3 h4"
    using get_rot_Some(1) [OF S3] by blast
  have S4: "is_Matrix4x4 h4 ?S" and R4: "is_Matrix4x4 h4 ?R"
    using S3 R3 by (simp_all add: stores_only_in_is_Matrix4x4 [OF f4])
  have c4: "contents h4 (arr ?R) = mat_prod (rot_y_elements (- yp)) (rot_z_elements (- zpp))"
    using stores_only_in_contents [OF f4 RS] c3 cy cz2 by simp
  obtain h5 where m2: "multiply4x4_4x4 ?S ?R (Some ?R) h4 = (Inr ?R, h5)"
    and c5: "contents h5 (arr ?R) = mat_prod (contents h4 (arr ?S)) (contents h4 (arr ?R))"
    using multiply4x4_4x4_into [OF S4 R4 R4 SR] by blast
  have "set_rot cam x yp zpp h = (Inr (), h5)"
    by (simp add: set_rot_def bind_p_def z y m1 x m2 return_p_def)
  moreover have "contents h5 (arr ?R) =
      mat_prod (rot_x_elements (- x)) (mat_prod (rot_y_elements (- yp)) (rot_z_elements (- zpp)))"
    using c5 cx c4 by simp
  ultimately show ?thesis by blast
qed

lemma camera_one_matrices:
  "is_Matrix4x4 heap_camera (swp camera_one)" "is_Matrix4x4 heap_camera (inv_rot camera_one)"
  "is_Matrix4x4 heap_camera (inv_tra camera_one)"
  "is_Matrix4x4 heap_camera (camera_transform camera_one)"
  "apart (arr (swp camera_one)) (arr (inv_rot camera_one))"
  by (simp_all add: is_Matrix4x4_def is_Matrix4xN_def is_Matrix_def view_ok_def arr_length_def
      cell_def matrix_on_def heap_camera_def identity_cells_def camera_one_def apart_def)

theorem set_rot_inv_rot_witness:
  "is_Matrix4x4 heap_camera (swp camera_one) \<and> is_Matrix4x4 heap_camera (inv_rot camera_one) \<and>
   apart (arr (swp camera_one)) (arr (inv_rot camera_one)) \<and>
   (\<exists>h'. set_rot camera_one 1 2 3 heap_camera = (Inr (), h') \<and>
         contents h' (arr (inv_rot camera_one)) =
           mat_prod (rot_x_elements (- 1)) (mat_prod (rot_y_elements (- 2)) (rot_z_elements (- 3))))"
  using set_rot_inv_rot [of heap_camera camera_one 1 2 3] camera_one_matrices
  by simp

section \<open>Perspective projection\<close>

declare perspective_project_loop.simps [simp del]

lemma rd_project_column_output:
  assumes "view_ok h (arr out)" and "i + 4 \<le> arr_length (arr out)"
  shows "rd (project_column cam input out i h) (arr out) j =
           (if i \<le> j \<and> j < i + 4 then projected cam h input i (j - i)
            else rd h (arr out) j)"
proof -
  have "j = i \<or> j = i + 1 \<or> j = i + 2 \<or> j = i + 3 \<or> j < i \<or> i + 4 \<le> j"
    by arith
  then show ?thesis
    using assms
    by (elim disjE) (simp_all add: project_column_def Let_def rd_wr_same_view projected_def)
qed

lemma rd_project_column_apart:
  assumes "apart w (arr out)"
  shows "rd (project_column cam input out i h) w j = rd h w j"
  using assms by (simp add: project_column_def Let_def rd_wr_apart)

lemma view_ok_project_column [simp]:
  "view_ok (project_column cam input out i h) w = view_ok h w"
  by (simp add: project_column_def Let_def)

lemma rd_project_loop_apart:
  assumes "apart w (arr out)"
  shows "rd (perspective_project_loop cam input out i h) w j = rd h w j"
  using assms
proof (induction cam input out i h rule: perspective_project_loop.induct)
  case (1 cam input out i h)
  then show ?case
    by (subst perspective_project_loop.simps) (simp add: rd_project_column_apart)
qed

lemma view_ok_project_loop [simp]:
  "view_ok (perspective_project_loop cam input out i h) w = view_ok h w"
proof (induction cam input out i h rule: perspective_project_loop.induct)
  case (1 cam input out i h)
  then show ?case
    by (subst perspective_project_loop.simps) simp
qed

lemma projected_cong:
  assumes "\<And>k. k < 3 \<Longrightarrow> rd h1 (arr input) (i + k) = rd h (arr input) (i + k)"
  shows "projected cam h1 input i r = projected cam h input i r"
proof -
  have "rd h1 (arr input) (i + 0) = rd h (arr input) (i + 0)"
    and "rd h1 (arr input) (i + 1) = rd h (arr input) (i + 1)"
    and "rd h1 (arr input) (i + 2) = rd h (arr input) (i + 2)"
    by (rule assms, simp)+
  then show ?thesis
    by (simp add: projected_def)
qed

lemma rd_project_loop_output:
  assumes "view_ok h (arr out)"
    and "arr_length (arr out) = arr_length (arr input)"
    and "arr_length (arr input) = 4 * n"
    and "arr input = arr out \<or> apart (arr input) (arr out)"
    and "c \<le> n"
  shows "rd (perspective_project_loop cam input out (4 * c) h) (arr out) j =
           (if 4 * c \<le> j \<and> j < 4 * n then projected cam h input (4 * (j div 4)) (j mod 4)
            else rd h (arr out) j)"
  using assms(1,5)
proof (induction "n - c" arbitrary: c h)
  case 0
  then have "c = n" by simp
  then show ?case
    using assms(3) by (subst perspective_project_loop.simps) simp
next
  case (Suc k)
  define h1 where "h1 = project_column cam input out (4 * c) h"
  from Suc.hyps(2) have c: "c < n" by simp
  have fits: "4 * c + 4 \<le> arr_length (arr out)"
    using c assms(2,3) by simp
  have unfold: "perspective_project_loop cam input out (4 * c) h =
      perspective_project_loop cam input out (4 * Suc c) h1"
    using c assms(3) by (subst perspective_project_loop.simps) (simp add: h1_def add.commute)
  have ok1: "view_ok h1 (arr out)"
    using Suc.prems(1) by (simp add: h1_def)
  have IH: "rd (perspective_project_loop cam input out (4 * Suc c) h1) (arr out) j =
           (if 4 * Suc c \<le> j \<and> j < 4 * n then projected cam h1 input (4 * (j div 4)) (j mod 4)
            else rd h1 (arr out) j)"
    using Suc.hyps(1) [of "Suc c" h1] Suc.hyps(2) ok1 c by simp
  have B1: "rd h1 (arr input) i = rd h (arr input) i" if "4 * c + 4 \<le> i" for i
    using assms(4)
  proof
    assume "arr input = arr out"
    then show ?thesis
      using that Suc.prems(1) fits by (simp add: h1_def rd_project_column_output)
  next
    assume "apart (arr input) (arr out)"
    then show ?thesis by (simp add: h1_def rd_project_column_apart)
  qed
  have C1: "rd h1 (arr out) j =
              (if 4 * c \<le> j \<and> j < 4 * c + 4 then projected cam h input (4 * c) (j - 4 * c)
               else rd h (arr out) j)"
    using Suc.prems(1) fits by (simp add: h1_def rd_project_column_output)
  have step: "rd (perspective_project_loop cam input out (4 * c) h) (arr out) j =
           (if 4 * Suc c \<le> j \<and> j < 4 * n then projected cam h1 input (4 * (j div 4)) (j mod 4)
            else rd h1 (arr out) j)"
    by (simp only: unfold IH)
  show ?case
  proof (cases "4 * Suc c \<le> j \<and> j < 4 * n")
    case True
    then have "4 * c + 4 \<le> 4 * (j div 4)" by presburger
    then have "projected cam h1 input (4 * (j div 4)) (j mod 4) =
        projected cam h input (4 * (j div 4)) (j mod 4)"
      by (intro projected_cong B1) simp
    with True show ?thesis
      by (simp add: step)
  next
    case False
    show ?thesis
    proof (cases "4 * c \<le> j \<and> j < 4 * c + 4")
      case True
      then have "j div 4 = c" and "j mod 4 = j - 4 * c"
        by presburger+
      with True c show ?thesis
        using False by (simp add: step C1)
    next
      case F2: False
      have "rd (perspective_project_loop cam input out (4 * c) h) (arr out) j =
          rd h1 (arr out) j"
        using False by (simp only: step if_False)
      moreover have "rd h1 (arr out) j = rd h (arr out) j"
        using F2 by (simp only: C1 if_False)
      moreover have "\<not> (4 * c \<le> j \<and> j < 4 * n)"
        using False F2 by arith
      ultimately show ?thesis
        by (simp only: if_False)
    qed
  qed
qed

lemma is_Matrix4xN_D:
  assumes "is_Matrix4xN h M"
  shows "view_ok h (arr M)" and "arr_length (arr M) = 4 * col_count M" and "0 < col_count M"
    and "buffer (arr M) < length h"
proof -
  show "view_ok h (arr M)" and "arr_length (arr M) = 4 * col_count M" and "0 < col_count M"
    using assms by (simp_all add: is_Matrix4xN_def is_Matrix_def)
  then show "buffer (arr M) < length h"
    by (simp add: view_ok_def)
qed

lemma perspective_project_Some_run:
  "perspective_project cam input (Some out) h =
     (Inr out, perspective_project_loop cam input out 0 h)"
  by (simp add: perspective_project_def bind_p_def cols_property_def)

lemma perspective_project_Some:
  assumes "is_Matrix4xN h input" and "is_Matrix4xN h out"
    and "col_count out = col_count input"
    and "arr out = arr input \<or> apart (arr input) (arr out)"
    and "j < 4 * col_count input"
  shows "rd (perspective_project_loop cam input out 0 h) (arr out) j =
           projected cam h input (4 * (j div 4)) (j mod 4)"
proof -
  note I = is_Matrix4xN_D [OF assms(1)] and O = is_Matrix4xN_D [OF assms(2)]
  have "rd (perspective_project_loop cam input out (4 * 0) h) (arr out) j =
           (if 4 * 0 \<le> j \<and> j < 4 * col_count input
            then projected cam h input (4 * (j div 4)) (j mod 4)
            else rd h (arr out) j)"
    using O(1) I(2) O(2) assms(3,4) by (intro rd_project_loop_output) auto
  then show "rd (perspective_project_loop cam input out 0 h) (arr out) j =
           projected cam h input (4 * (j div 4)) (j mod 4)"
    using assms(5) by simp
qed

lemma perspective_project_None:
  assumes "is_Matrix4xN h input" and "j < 4 * col_count input"
  defines "h0 \<equiv> h @ [replicate (4 * col_count input) 0]"
  defines "F \<equiv> fresh4xN h (col_count input)"
  shows "perspective_project cam input None h =
           (Inr F, perspective_project_loop cam input F 0 h0)"
    and "rd (perspective_project_loop cam input F 0 h0) (arr F) j =
           projected cam h input (4 * (j div 4)) (j mod 4)"
proof -
  note I = is_Matrix4xN_D [OF assms(1)]
  have new: "new_Matrix4xN (real (cols input)) None h = (Inr F, h0)"
    using I(3) by (simp add: new_Matrix4xN_None cols_def F_def h0_def fresh4xN_def)
  have F: "is_Matrix4xN h0 F"
    using I(3) by (simp add: F_def h0_def is_Matrix4xN_fresh)
  have I0: "is_Matrix4xN h0 input"
    using assms(1) by (simp add: h0_def is_Matrix_append)
  have IF: "apart (arr input) (arr F)"
    using I(4) by (simp add: F_def apart_fresh4xN)
  have cc: "col_count F = col_count input"
    by (simp add: F_def fresh4xN_def)
  have "perspective_project cam input None h = perspective_project cam input (Some F) h0"
    using new by (simp add: perspective_project_def bind_p_def)
  then show "perspective_project cam input None h =
           (Inr F, perspective_project_loop cam input F 0 h0)"
    by (simp add: perspective_project_Some_run)
  have "rd (perspective_project_loop cam input F 0 h0) (arr F) j =
           projected cam h0 input (4 * (j div 4)) (j mod 4)"
    using I0 F cc IF assms(2) by (intro perspective_project_Some) simp_all
  moreover have "projected cam h0 input (4 * (j div 4)) (j mod 4) =
      projected cam h input (4 * (j div 4)) (j mod 4)"
    using I(4) by (intro projected_cong) (simp add: h0_def rd_append)
  ultimately show "rd (perspective_project_loop cam input F 0 h0) (arr F) j =
           projected cam h input (4 * (j div 4)) (j mod 4)"
    by simp
qed

lemma set_res_and_view_angle_fields:
  assumes "tan (ang / 2) \<noteq> 0"
  shows "res_x (set_res_and_view_angle rx ry ang cam) = rx"
    and "res_y (set_res_and_view_angle rx ry ang cam) = ry"
    and "max_px (set_res_and_view_angle rx ry ang cam) = max rx ry"
    and "e_z (set_res_and_view_angle rx ry ang cam) = 1 / tan (ang / 2)"
  using assms by (simp_all add: set_res_and_view_angle_def Let_def fdiv_def)

lemma projected_configured:
  fixes rx ry ang :: real and cam :: camera
  defines "cam' \<equiv> set_res_and_view_angle rx ry ang cam"
  assumes "tan (ang / 2) \<noteq> 0" and "rd h (arr input) (i + 2) \<noteq> 0"
  shows "projected cam' h input i 0 =
           0.5 * rx + 0.5 * max rx ry * (1 / tan (ang / 2) / rd h (arr input) (i + 2)) * rd h (arr input) i"
    and "projected cam' h input i 1 =
           0.5 * ry + 0.5 * max rx ry * (1 / tan (ang / 2) / rd h (arr input) (i + 2)) * rd h (arr input) (i + 1)"
    and "projected cam' h input i 2 = 1 / tan (ang / 2) / rd h (arr input) (i + 2)"
    and "projected cam' h input i 3 = 1"
  using assms(3)
  by (simp_all add: projected_def Let_def cam'_def set_res_and_view_angle_fields [OF assms(2)] fdiv_def)

lemma column_index:
  fixes j :: nat
  shows "(4 * j) div 4 = j" "(4 * j) mod 4 = 0"
    "(4 * j + 1) div 4 = j" "(4 * j + 1) mod 4 = 1"
    "(4 * j + 2) div 4 = j" "(4 * j + 2) mod 4 = 2"
    "(4 * j + 3) div 4 = j" "(4 * j + 3) mod 4 = 3"
  by presburger+

text \<open>
  C1. Let the camera be configured by \<^verbatim>\<open>set_res_and_view_angle(rx, ry, ang)\<close>, so that
  \<open>res_x = rx\<close>, \<open>res_y = ry\<close>, \<open>max_px = max rx ry\<close> and \<open>e_z = 1 / tan (ang / 2)\<close>, and let
  the output be omitted, or be the input itself, or be a matrix of as many columns stored
  apart from the input. Then \<^verbatim>\<open>perspective_project\<close> returns, and for every column
  \<open>(x, y, z, _)\<close> of the input with \<open>z \<noteq> 0\<close> the same column of the output holds
  \<open>(0.5 * rx + 0.5 * max_px * (e_z / z) * x, 0.5 * ry + 0.5 * max_px * (e_z / z) * y, e_z / z, 1)\<close>.
  At \<open>z = 0\<close> the source yields an infinity or NaN, which the reals do not have. The instance
  after it is the scenario of the specification: resolution 800 by 600, angle
  \<open>2 * arctan 1\<close>, a camera with the identity in \<open>inv_rot\<close> and \<open>inv_tra\<close>, point
  \<open>(1, 0, 1, 1)\<close>, image \<open>(800, 300, 1, 1)\<close>.
\<close>

theorem perspective_project_writes_column:
  assumes "is_Matrix4xN h input"
    and "outopt = None \<or>
         (\<exists>out. outopt = Some out \<and> is_Matrix4xN h out \<and> col_count out = col_count input \<and>
                (arr out = arr input \<or> apart (arr input) (arr out)))"
    and "j < col_count input"
    and "rd h (arr input) (4 * j + 2) \<noteq> 0"
    and "tan (ang / 2) \<noteq> 0"
  shows "\<exists>out h'.
           perspective_project (set_res_and_view_angle rx ry ang cam) input outopt h = (Inr out, h') \<and>
           rd h' (arr out) (4 * j) =
             0.5 * rx + 0.5 * max rx ry * (1 / tan (ang / 2) / rd h (arr input) (4 * j + 2))
               * rd h (arr input) (4 * j) \<and>
           rd h' (arr out) (4 * j + 1) =
             0.5 * ry + 0.5 * max rx ry * (1 / tan (ang / 2) / rd h (arr input) (4 * j + 2))
               * rd h (arr input) (4 * j + 1) \<and>
           rd h' (arr out) (4 * j + 2) = 1 / tan (ang / 2) / rd h (arr input) (4 * j + 2) \<and>
           rd h' (arr out) (4 * j + 3) = 1"
proof -
  let ?cam = "set_res_and_view_angle rx ry ang cam"
  have idx: "4 * j < 4 * col_count input" "4 * j + 1 < 4 * col_count input"
    "4 * j + 2 < 4 * col_count input" "4 * j + 3 < 4 * col_count input"
    using assms(3) by simp_all
  note img = projected_configured [OF assms(5,4), of rx ry cam]
  from assms(2) show ?thesis
  proof
    assume "outopt = None"
    then show ?thesis
      using perspective_project_None(1) [OF assms(1) idx(1), of ?cam]
        perspective_project_None(2) [OF assms(1) idx(1), of ?cam]
        perspective_project_None(2) [OF assms(1) idx(2), of ?cam]
        perspective_project_None(2) [OF assms(1) idx(3), of ?cam]
        perspective_project_None(2) [OF assms(1) idx(4), of ?cam]
      by (simp only: column_index img) blast
  next
    assume "\<exists>out. outopt = Some out \<and> is_Matrix4xN h out \<and> col_count out = col_count input \<and>
                (arr out = arr input \<or> apart (arr input) (arr out))"
    then obtain out where out: "outopt = Some out" "is_Matrix4xN h out"
      "col_count out = col_count input" "arr out = arr input \<or> apart (arr input) (arr out)"
      by blast
    show ?thesis
      using perspective_project_Some_run [of ?cam input out h]
        perspective_project_Some [OF assms(1) out(2,3,4) idx(1), of ?cam]
        perspective_project_Some [OF assms(1) out(2,3,4) idx(2), of ?cam]
        perspective_project_Some [OF assms(1) out(2,3,4) idx(3), of ?cam]
        perspective_project_Some [OF assms(1) out(2,3,4) idx(4), of ?cam]
      by (simp only: column_index img out(1)) blast
  qed
qed

theorem perspective_project_writes_column_witness:
  "is_Matrix4xN heap_point (matrix_on 4 1) \<and> (0::nat) < col_count (matrix_on 4 1) \<and>
   rd heap_point (arr (matrix_on 4 1)) (4 * 0 + 2) \<noteq> 0 \<and> tan (2 * arctan 1 / 2) \<noteq> 0 \<and>
   (\<exists>out h'.
      perspective_project (set_res_and_view_angle 800 600 (2 * arctan 1) camera_one)
        (matrix_on 4 1) None heap_point = (Inr out, h') \<and>
      rd h' (arr out) 0 = 800 \<and> rd h' (arr out) 1 = 300 \<and>
      rd h' (arr out) 2 = 1 \<and> rd h' (arr out) 3 = 1)"
proof -
  have M: "is_Matrix4xN heap_point (matrix_on 4 1)"
    by (simp add: is_Matrix4xN_def is_Matrix_def view_ok_def arr_length_def cell_def
        matrix_on_def heap_point_def heap_camera_def)
  have c: "(0::nat) < col_count (matrix_on 4 1)"
    by (simp add: matrix_on_def)
  have x: "rd heap_point (arr (matrix_on 4 1)) (4 * 0) = 1"
    and y: "rd heap_point (arr (matrix_on 4 1)) (4 * 0 + 1) = 0"
    and z: "rd heap_point (arr (matrix_on 4 1)) (4 * 0 + 2) = 1"
    by (simp_all add: rd_def arr_length_def cell_def matrix_on_def heap_point_def heap_camera_def)
  have t: "tan (2 * arctan 1 / 2) = (1::real)"
    by (simp add: tan_arctan)
  have z0: "rd heap_point (arr (matrix_on 4 1)) (4 * 0 + 2) \<noteq> 0"
    and t0: "tan (2 * arctan 1 / 2) \<noteq> (0::real)"
    by (simp_all only: z t one_neq_zero not_False_eq_True)
  obtain out h' where
    "perspective_project (set_res_and_view_angle 800 600 (2 * arctan 1) camera_one)
        (matrix_on 4 1) None heap_point = (Inr out, h')"
    and "rd h' (arr out) (4 * 0) =
           0.5 * 800 + 0.5 * max 800 600 * (1 / tan (2 * arctan 1 / 2) /
             rd heap_point (arr (matrix_on 4 1)) (4 * 0 + 2)) * rd heap_point (arr (matrix_on 4 1)) (4 * 0)"
    and "rd h' (arr out) (4 * 0 + 1) =
           0.5 * 600 + 0.5 * max 800 600 * (1 / tan (2 * arctan 1 / 2) /
             rd heap_point (arr (matrix_on 4 1)) (4 * 0 + 2)) * rd heap_point (arr (matrix_on 4 1)) (4 * 0 + 1)"
    and "rd h' (arr out) (4 * 0 + 2) =
           1 / tan (2 * arctan 1 / 2) / rd heap_point (arr (matrix_on 4 1)) (4 * 0 + 2)"
    and "rd h' (arr out) (4 * 0 + 3) = 1"
    using perspective_project_writes_column
      [of heap_point "matrix_on 4 1" None 0 "2 * arctan 1" 800 600 camera_one, OF M _ c z0 t0]
    by blast
  then have "perspective_project (set_res_and_view_angle 800 600 (2 * arctan 1) camera_one)
        (matrix_on 4 1) None heap_point = (Inr out, h') \<and>
      rd h' (arr out) 0 = 800 \<and> rd h' (arr out) 1 = 300 \<and>
      rd h' (arr out) 2 = 1 \<and> rd h' (arr out) 3 = 1"
    unfolding x y z t by (simp add: numeral_2_eq_2)
  then show ?thesis
    using M c z0 t0 by blast
qed

text \<open>
  C8. With an output passed, \<^verbatim>\<open>perspective_project\<close> returns that output for every input,
  whatever the two column counts: the guard compares the property \<^verbatim>\<open>cols\<close> of the two
  objects, the same function object for both, so it never fails and no other statement of
  the function throws. The instance after it has an input of two columns and an output
  of one.
\<close>

theorem perspective_project_accepts_any_output:
  "fst (perspective_project cam input (Some out) h) = Inr out \<and>
   cols_property input = cols_property out"
  by (simp add: perspective_project_def bind_p_def cols_property_def)

theorem perspective_project_accepts_any_output_witness:
  "cols (matrix_on 0 2) \<noteq> cols (matrix_on 1 1) \<and>
   fst (perspective_project camera_one (matrix_on 0 2) (Some (matrix_on 1 1))
          [[1, 0, 1, 1,  2, 0, 1, 1], [0, 0, 0, 0]]) = Inr (matrix_on 1 1)"
  using perspective_project_accepts_any_output
    [of camera_one "matrix_on 0 2" "matrix_on 1 1" "[[1, 0, 1, 1,  2, 0, 1, 1], [0, 0, 0, 0]]"]
  by (simp add: cols_def matrix_on_def)

section \<open>Runs on given heaps\<close>

lemma list_update_Cons_numeral:
  "(x # xs)[numeral k := y] = x # xs[pred_numeral k := y]"
  by (simp add: numeral_eq_Suc)

lemma replicate_numeral: "replicate (numeral k) x = x # replicate (pred_numeral k) x"
  by (simp add: numeral_eq_Suc)

lemma upt_4: "[0..<4] = [0, 1, 2, 3]"
  by (simp add: upt_conv_Cons)

lemma upt_16: "[0..<16] = [0, 1, 2, 3, 4, 5, 6, 7, 8, 9, 10, 11, 12, 13, 14, 15]"
  by (simp add: upt_conv_Cons)

lemmas eval_heap =
  rd_def wr_def cell_def arr_length_def contents_def matrix_on_def Let_def
  list_update_Cons_numeral replicate_numeral upt_16 upt_4

lemma new_Matrix4x4_Some:
  assumes "arr_length v = 16"
  shows "new_Matrix4x4 (Some v) h = (Inr \<lparr>row_count = 4, col_count = 4, arr = v\<rparr>, h)"
  using assms by (simp add: new_Matrix4x4_def new_Matrix4xN_def new_Matrix_def)

lemma new_Matrix4x1_Some:
  assumes "arr_length v = 4"
  shows "new_Matrix4x1 (Some v) h = (Inr \<lparr>row_count = 4, col_count = 1, arr = v\<rparr>, h)"
  using assms by (simp add: new_Matrix4x1_def new_Matrix4xN_def new_Matrix_def)

lemma sqrt_values:
  "sqrt 25 = 5" "sqrt (9 / 25) = 3 / 5" "sqrt (576 / 625) = 24 / 25"
proof -
  have "sqrt (5 * 5) = 5" "sqrt ((3 / 5) * (3 / 5)) = 3 / 5" "sqrt ((24 / 25) * (24 / 25)) = 24 / 25"
    by (simp_all only: real_sqrt_abs2)
  then show "sqrt 25 = 5" "sqrt (9 / 25) = 3 / 5" "sqrt (576 / 625) = 24 / 25"
    by simp_all
qed

lemma trig_values:
  "cos (arccos (4 / 5)) = 4 / 5" "sin (arccos (4 / 5)) = 3 / 5"
  "cos (arccos (7 / 25)) = 7 / 25" "sin (arccos (7 / 25)) = 24 / 25"
  by (simp_all add: sin_arccos power2_eq_square sqrt_values)


lemma bind_p_run: "bind_p m f h = continue_with (m h) f"
  by (simp add: bind_p_def continue_with_def)

lemma continue_with_simps:
  "continue_with (Inr x, h') f = f x h'" "continue_with (Inl e, h') f = (Inl e, h')"
  by (simp_all add: continue_with_def)

lemma return_p_run: "return_p x h = (Inr x, h)"
  by (simp add: return_p_def)

lemma read_p_run: "read_p f h = (Inr (f h), h)"
  by (simp add: read_p_def)

lemma modify_p_run: "modify_p f h = (Inr (), f h)"
  by (simp add: modify_p_def)

lemma or_new_run: "or_new None mk h = mk h" "or_new (Some x) mk h = (Inr x, h)"
  by (simp_all add: or_new_def return_p_def)

lemma multiply4x4_4x4_run:
  "multiply4x4_4x4 A B (Some C) h =
     (if same_view (arr A) (arr C) then (Inl CannotModifyAInPlace, h)
      else (Inr C, mul_column A B C 12 (mul_column A B C 8 (mul_column A B C 4 (mul_column A B C 0 h)))))"
  by (simp add: multiply4x4_4x4_def bind_p_def or_new_def return_p_def)

lemma multiply4x4_4x1_run:
  "multiply4x4_4x1 A B (Some C) h =
     (if same_view (arr A) (arr C) then (Inl CannotModifyAInPlace, h)
      else (Inr C, mul_column A B C 0 h))"
  by (simp add: multiply4x4_4x1_def bind_p_def or_new_def return_p_def)

lemma copy_run:
  "copy4x1 src None h =
     (Inr \<lparr>row_count = 4, col_count = 1, arr = \<lparr>buffer = length h, byteOffset = 0, byteLength = 16\<rparr>\<rparr>,
      copy_elements src \<lparr>row_count = 4, col_count = 1, arr = \<lparr>buffer = length h, byteOffset = 0, byteLength = 16\<rparr>\<rparr>
        (h @ [replicate 4 0]))"
  "copy4x4 src None h =
     (Inr \<lparr>row_count = 4, col_count = 4, arr = \<lparr>buffer = length h, byteOffset = 0, byteLength = 64\<rparr>\<rparr>,
      copy_elements src \<lparr>row_count = 4, col_count = 4, arr = \<lparr>buffer = length h, byteOffset = 0, byteLength = 64\<rparr>\<rparr>
        (h @ [replicate 16 0]))"
  "copy4x4 src (Some dst) h = (Inr dst, copy_elements src dst h)"
  by (simp_all add: copy4x1_def copy4x4_def bind_p_def or_new_def return_p_def modify_p_def
      new_Matrix4x1_None new_Matrix4x4_None)

lemma get_rot_run:
  "get_rot_x rad None h =
     (Inr \<lparr>row_count = 4, col_count = 4, arr = \<lparr>buffer = length h, byteOffset = 0, byteLength = 64\<rparr>\<rparr>,
      wr_from (h @ [replicate 16 0]) \<lparr>buffer = length h, byteOffset = 0, byteLength = 64\<rparr> 0 (rot_x_elements rad))"
  "get_rot_y rad None h =
     (Inr \<lparr>row_count = 4, col_count = 4, arr = \<lparr>buffer = length h, byteOffset = 0, byteLength = 64\<rparr>\<rparr>,
      wr_from (h @ [replicate 16 0]) \<lparr>buffer = length h, byteOffset = 0, byteLength = 64\<rparr> 0 (rot_y_elements rad))"
  "get_rot_z rad None h =
     (Inr \<lparr>row_count = 4, col_count = 4, arr = \<lparr>buffer = length h, byteOffset = 0, byteLength = 64\<rparr>\<rparr>,
      wr_from (h @ [replicate 16 0]) \<lparr>buffer = length h, byteOffset = 0, byteLength = 64\<rparr> 0 (rot_z_elements rad))"
  by (simp_all add: get_rot_x_def get_rot_y_def get_rot_z_def bind_p_def or_new_def return_p_def
      modify_p_def new_Matrix4x4_None)

lemma getI4x4_run:
  "getI4x4 None h =
     (Inr \<lparr>row_count = 4, col_count = 4, arr = \<lparr>buffer = length h, byteOffset = 0, byteLength = 64\<rparr>\<rparr>,
      h @ [[1, 0, 0, 0,  0, 1, 0, 0,  0, 0, 1, 0,  0, 0, 0, 1]])"
  by (simp add: getI4x4_def bind_p_def return_p_def new_Matrix4x4_None set_all_def eval_heap nth_append)

lemma element_run:
  "divide_element M i d h = (Inr (), wr h (arr M) i (fdiv (rd h (arr M) i) d))"
  "negate_element M i h = (Inr (), wr h (arr M) i (- 1 * rd h (arr M) i))"
  "set_element M i x h = (Inr (), wr h (arr M) i x)"
  by (simp_all add: divide_element_def negate_element_def set_element_def modify_p_def)

lemma new_Float32Array_of_run:
  "new_Float32Array_of xs h =
     (Inr \<lparr>buffer = length h, byteOffset = 0, byteLength = 4 * length xs\<rparr>,
      wr_from (h @ [replicate (length xs) 0]) \<lparr>buffer = length h, byteOffset = 0, byteLength = 4 * length xs\<rparr> 0 xs)"
  by (simp add: new_Float32Array_of_def new_Float32Array_def)

lemmas run_eqs =
  bind_p_run continue_with_simps return_p_run read_p_run modify_p_run or_new_run multiply4x4_4x4_run multiply4x4_4x1_run
  copy_run get_rot_run getI4x4_run element_run new_Float32Array_of_run
  new_Matrix4x4_None new_Matrix4x1_None new_Matrix4x1_Some new_Matrix4x4_Some
  copy_elements_def mul_column_def same_view_def wr_from.simps
  acos_dot3_over_norm3_def dot3_def norm3_def Math_hypot_def Math_acos_def fdiv_def
  rot_x_elements_def rot_y_elements_def rot_z_elements_def

lemma get_rot_v_run:
  "get_rot_v pi (matrix_on 0 1) None [[0, 3, 4, 0]] =
     (Inr (matrix_on 1 4),
      [[0, 3, 4, 0],
       [527 / 625, 1008 / 3125, - (1344 / 3125), 0,
        1008 / 3125, - (14743 / 15625), - (1176 / 15625), 0,
        - (1344 / 3125), - (1176 / 15625), - (14057 / 15625), 0,
        0, 0, 0, 1],
       [0, 3 / 5, 4 / 5, 0],
       [0, 0, 1, 0],
       [0, 24 / 25, 7 / 25, 0],
       [1, 0, 0, 0,  0, 4 / 5, - (3 / 5), 0,  0, 3 / 5, 4 / 5, 0,  0, 0, 0, 1],
       [1, 0, 0, 0,  0, 4 / 5, 3 / 5, 0,  0, - (3 / 5), 4 / 5, 0,  0, 0, 0, 1],
       [7 / 25, 0, - (24 / 25), 0,  0, 1, 0, 0,  24 / 25, 0, 7 / 25, 0,  0, 0, 0, 1],
       [7 / 25, 0, 24 / 25, 0,  0, 1, 0, 0,  - (24 / 25), 0, 7 / 25, 0,  0, 0, 0, 1],
       [527 / 625, 1008 / 3125, - (1344 / 3125), 0,
        1008 / 3125, - (14743 / 15625), - (1176 / 15625), 0,
        - (1344 / 3125), - (1176 / 15625), - (14057 / 15625), 0,
        0, 0, 0, 1],
       [0, 0, 0, 0,  0, 0, 0, 0,  0, 0, 0, 0,  0, 0, 0, 0],
       [- 1, 0, 0, 0,  0, - 1, 0, 0,  0, 0, 1, 0,  0, 0, 0, 1]])"
  by (simp add: get_rot_v_def run_eqs eval_heap sqrt_values trig_values)

lemma spec_rot_v_value:
  "spec_rot_v pi [0, 3, 4, 0] =
     [- 1, 0, 0, 0,  0, - (7 / 25), 24 / 25, 0,  0, 24 / 25, 7 / 25, 0,  0, 0, 0, 1]"
  by (simp add: spec_rot_v_def negate_two_def mat_prod_def mat_prod_element_def
      rot_x_elements_def rot_y_elements_def rot_z_elements_def Let_def upt_16 upt_4
      list_update_Cons_numeral sqrt_values trig_values)

text \<open>
  C4. The claim is that \<^verbatim>\<open>get_rot_v(angle, axis)\<close> returns \<open>Rx\<^sup>-\<^sup>1 \<cdot> Ry\<^sup>-\<^sup>1 \<cdot> Rz(angle) \<cdot> Ry \<cdot> Rx\<close>
  with \<open>Rx\<close> the rotation about X by the arccos angle and each inverse the rotation with
  its sines negated. The source copies \<open>R_x\<close> into \<open>R_x_i\<close> and then negates the sines of
  \<open>R_x\<close>, not of \<open>R_x_i\<close> (for Y it negates those of \<open>R_y_i\<close>), so the two are exchanged. For
  the angle \<open>\<pi>\<close> and the axis \<open>(0, 3, 4)\<close>, which is not parallel to Z, the matrix that
  \<^verbatim>\<open>get_rot_v\<close> returns is not the composition of the claim: its first column is
  \<open>(527/625, 1008/3125, -1344/3125, 0)\<close>, that of the composition is \<open>(-1, 0, 0, 0)\<close>.
\<close>

theorem get_rot_v_is_not_the_composition_of_the_specification:
  "\<exists>M h'. get_rot_v pi (matrix_on 0 1) None [[0, 3, 4, 0]] = (Inr M, h') \<and>
      contents h' (arr M) =
        [527 / 625, 1008 / 3125, - (1344 / 3125), 0,
         1008 / 3125, - (14743 / 15625), - (1176 / 15625), 0,
         - (1344 / 3125), - (1176 / 15625), - (14057 / 15625), 0,
         0, 0, 0, 1] \<and>
      spec_rot_v pi (contents [[0, 3, 4, 0]] (arr (matrix_on 0 1))) =
        [- 1, 0, 0, 0,  0, - (7 / 25), 24 / 25, 0,  0, 24 / 25, 7 / 25, 0,  0, 0, 0, 1] \<and>
      contents h' (arr M) \<noteq> spec_rot_v pi (contents [[0, 3, 4, 0]] (arr (matrix_on 0 1)))"
proof -
  have axis: "contents [[0, 3, 4, 0]] (arr (matrix_on 0 1)) = [0, 3, 4, 0]"
    by (simp add: eval_heap)
  show ?thesis
    unfolding axis spec_rot_v_value get_rot_v_run
    by (simp add: eval_heap)
qed

lemma get_rot_Some_run:
  "get_rot_x rad (Some out) h = (Inr out, wr_from h (arr out) 0 (rot_x_elements rad))"
  "get_rot_y rad (Some out) h = (Inr out, wr_from h (arr out) 0 (rot_y_elements rad))"
  "get_rot_z rad (Some out) h = (Inr out, wr_from h (arr out) 0 (rot_z_elements rad))"
  by (simp_all add: get_rot_x_def get_rot_y_def get_rot_z_def bind_p_def or_new_def return_p_def
      modify_p_def)

lemma getI4x4_Some_run:
  "getI4x4 (Some v) h =
     continue_with (new_Matrix4x4 (Some v) h)
       (\<lambda>out. bind_p (set_all out (Numbers [1, 0, 0, 0,  0, 1, 0, 0,  0, 0, 1, 0,  0, 0, 0, 1]))
          (\<lambda>_. return_p out))"
  by (simp add: getI4x4_def bind_p_run)

lemmas camera_defs =
  new_Camera_def set_pos_def set_rot_def g_rot_def l_rot_def rot_into_swp_def set_all_def
  camera_one_def heap_camera_def identity_cells_def get_rot_Some_run getI4x4_Some_run

lemma new_Camera_run: "new_Camera [] = (Inr camera_one, heap_camera)"
  by (simp add: camera_defs run_eqs eval_heap)

text \<open>
  C2. The claim is that after \<^verbatim>\<open>set_pos\<close>, \<^verbatim>\<open>set_rot\<close>, \<^verbatim>\<open>g_rot\<close> or \<^verbatim>\<open>l_rot\<close> the field
  \<open>camera_transform\<close> holds \<open>inv_rot \<cdot> inv_tra\<close>. No setter calls
  \<^verbatim>\<open>update_cam_transform\<close>: on the camera that the constructor builds, after
  \<^verbatim>\<open>set_pos\<close> to \<open>(1, 0, 0, 1)\<close>, and after each of the three rotations by the angle \<open>\<pi>\<close>
  about Z, \<open>camera_transform\<close> still holds the identity, while the product of \<open>inv_rot\<close> and
  \<open>inv_tra\<close> is another matrix.
\<close>

theorem setters_leave_camera_transform_stale:
  "(\<exists>h'. set_pos camera_one (matrix_on 4 1) (heap_camera @ [[1, 0, 0, 1]]) = (Inr (), h') \<and>
         contents h' (arr (camera_transform camera_one)) = identity_cells \<and>
         mat_prod (contents h' (arr (inv_rot camera_one))) (contents h' (arr (inv_tra camera_one))) =
           [1, 0, 0, 0,  0, 1, 0, 0,  0, 0, 1, 0,  - 1, 0, 0, 1]) \<and>
   (\<exists>h'. set_rot camera_one 0 0 pi heap_camera = (Inr (), h') \<and>
         contents h' (arr (camera_transform camera_one)) = identity_cells \<and>
         mat_prod (contents h' (arr (inv_rot camera_one))) (contents h' (arr (inv_tra camera_one))) =
           [- 1, 0, 0, 0,  0, - 1, 0, 0,  0, 0, 1, 0,  0, 0, 0, 1]) \<and>
   (\<exists>h'. g_rot camera_one Z pi heap_camera = (Inr (), h') \<and>
         contents h' (arr (camera_transform camera_one)) = identity_cells \<and>
         mat_prod (contents h' (arr (inv_rot camera_one))) (contents h' (arr (inv_tra camera_one))) =
           [- 1, 0, 0, 0,  0, - 1, 0, 0,  0, 0, 1, 0,  0, 0, 0, 1]) \<and>
   (\<exists>h'. l_rot camera_one Z pi heap_camera = (Inr (), h') \<and>
         contents h' (arr (camera_transform camera_one)) = identity_cells \<and>
         mat_prod (contents h' (arr (inv_rot camera_one))) (contents h' (arr (inv_tra camera_one))) =
           [- 1, 0, 0, 0,  0, - 1, 0, 0,  0, 0, 1, 0,  0, 0, 0, 1])"
  by (simp add: camera_defs run_eqs eval_heap mat_prod_def mat_prod_element_def)

text \<open>
  The scenario of the specification through \<^verbatim>\<open>capture\<close>: the camera that the constructor
  builds, with the transform updated, resolution 800 by 600 and view angle \<open>2 * arctan 1\<close>,
  maps the point \<open>(1, 0, 1, 1)\<close> to \<open>(800, 300, 1, 1)\<close>.
\<close>

lemma new_Matrix4xN_one:
  "new_Matrix4xN 1 None h =
     (Inr \<lparr>row_count = 4, col_count = 1,
           arr = \<lparr>buffer = length h, byteOffset = 0, byteLength = 16\<rparr>\<rparr>,
      h @ [replicate 4 0])"
  using new_Matrix4xN_None [of 1 h] by simp

lemma multiply4x4_4xN_run:
  "multiply4x4_4xN A B (Some C) h =
     (if same_view (arr A) (arr C) then (Inl CannotModifyAInPlace, h)
      else if cols B \<noteq> cols C then (Inl ColumnCountMismatch, h)
      else (Inr C, multiply4x4_4xN_loop A B C 0 h))"
  by (simp add: multiply4x4_4xN_def bind_p_def)

lemma capture_scenario:
  "\<exists>h1 h2. update_cam_transform camera_one heap_point = (Inr (), h1) \<and>
      capture (set_res_and_view_angle 800 600 (2 * arctan 1) camera_one) (matrix_on 4 1) None h1
        = (Inr (matrix_on 5 1), h2) \<and>
      contents h2 (arr (matrix_on 5 1)) = [800, 300, 1, 1]"
  by (simp add: update_cam_transform_def capture_def camera_defs run_eqs eval_heap heap_point_def
      cols_def new_Matrix4xN_one multiply4x4_4xN_run multiply4x4_4xN_loop.simps
      perspective_project_Some_run perspective_project_loop.simps project_column_def
      set_res_and_view_angle_def tan_arctan)

section \<open>The right operand as output when it is also the left operand\<close>

text \<open>
  C6 does not hold of every pair of operands. On \<^verbatim>\<open>heap_two\<close> let \<open>M\<close> be the \<^verbatim>\<open>Matrix4x4\<close> on
  buffer 0. The calls \<^verbatim>\<open>multiply4x4_4x4(M, M, M)\<close> and \<^verbatim>\<open>multiply4x4_4xN(M, M, M)\<close> throw
  \<^verbatim>\<open>"Cannot modify Matrix A in place, only B can be modified in place"\<close> and leave the array of \<open>M\<close> as it was, while the calls with the
  output omitted return a fresh matrix that holds the product of \<open>M\<close> with itself, which is not
  what the array of \<open>M\<close> holds.
\<close>

theorem multiply_into_B_throws_when_B_is_A:
  "multiply4x4_4x4 (matrix_on 0 4) (matrix_on 0 4) (Some (matrix_on 0 4)) heap_two
     = (Inl CannotModifyAInPlace, heap_two) \<and>
   multiply4x4_4xN (matrix_on 0 4) (matrix_on 0 4) (Some (matrix_on 0 4)) heap_two
     = (Inl CannotModifyAInPlace, heap_two) \<and>
   fst (multiply4x4_4x4 (matrix_on 0 4) (matrix_on 0 4) None heap_two) = Inr (fresh4xN heap_two 4) \<and>
   contents (snd (multiply4x4_4x4 (matrix_on 0 4) (matrix_on 0 4) None heap_two)) (arr (fresh4xN heap_two 4))
     = [1, 0, 0, 0,  0, 4, 0, 0,  0, 0, 9, 0,  10, 18, 28, 1] \<and>
   fst (multiply4x4_4xN (matrix_on 0 4) (matrix_on 0 4) None heap_two) = Inr (fresh4xN heap_two 4) \<and>
   contents (snd (multiply4x4_4xN (matrix_on 0 4) (matrix_on 0 4) None heap_two)) (arr (fresh4xN heap_two 4))
     = [1, 0, 0, 0,  0, 4, 0, 0,  0, 0, 9, 0,  10, 18, 28, 1] \<and>
   contents heap_two (arr (matrix_on 0 4)) = [1, 0, 0, 0,  0, 2, 0, 0,  0, 0, 3, 0,  5, 6, 7, 1]"
proof -
  have prod: "mat_prod (contents heap_two (arr (matrix_on 0 4))) (contents heap_two (arr (matrix_on 0 4)))
                = [1, 0, 0, 0,  0, 4, 0, 0,  0, 0, 9, 0,  10, 18, 28, 1]"
    by (simp add: mat_prod_def mat_prod_element_def eval_heap heap_two_def)
  have c: "col_count (matrix_on 0 4) = 4"
    by (simp add: matrix_on_def)
  note sq = multiply4x4_4x4_None [OF example_matrices(1) example_matrices(1)]
  note sn = multiply4x4_4xN_None [OF example_matrices(1) example_matrices(3), unfolded c]
  have t1: "multiply4x4_4x4 (matrix_on 0 4) (matrix_on 0 4) (Some (matrix_on 0 4)) heap_two
              = (Inl CannotModifyAInPlace, heap_two)"
    by (simp add: multiply4x4_4x4_run same_view_def)
  have t2: "multiply4x4_4xN (matrix_on 0 4) (matrix_on 0 4) (Some (matrix_on 0 4)) heap_two
              = (Inl CannotModifyAInPlace, heap_two)"
    by (simp add: multiply4x4_4xN_run same_view_def)
  have t3: "contents heap_two (arr (matrix_on 0 4)) = [1, 0, 0, 0,  0, 2, 0, 0,  0, 0, 3, 0,  5, 6, 7, 1]"
    by (simp add: eval_heap heap_two_def)
  show ?thesis
    using t1 t2 t3 prod sq sn by simp
qed

end
